theory Spec2Isabelle
  imports Main "HOL-Library.Word"
begin

unbundle bit_operations_syntax

section \<open>Strings, bytes and JavaScript truthiness\<close>

text \<open>
  A \<^verbatim>\<open>Uint8Array\<close> is a list of 8-bit words. A JavaScript string is a \<^typ>\<open>string\<close>;
  its \<^verbatim>\<open>.length\<close> is \<^const>\<open>length\<close>. A value read from \<^verbatim>\<open>chrome.storage.local\<close> is an
  option: \<^const>\<open>None\<close> is \<^verbatim>\<open>undefined\<close> (key not stored).
\<close>

type_synonym bytes = "8 word list"

text \<open>\<^verbatim>\<open>!!v\<close> for a stored string: \<^verbatim>\<open>undefined\<close> and \<^verbatim>\<open>""\<close> are falsy.\<close>

definition truthy_str :: "string option \<Rightarrow> bool" where
  "truthy_str v = (case v of None \<Rightarrow> False | Some s \<Rightarrow> s \<noteq> [])"

text \<open>\<^verbatim>\<open>!!v\<close> for a stored number: \<^verbatim>\<open>undefined\<close> and \<^verbatim>\<open>0\<close> are falsy.\<close>

definition truthy_num :: "int option \<Rightarrow> bool" where
  "truthy_num v = (case v of None \<Rightarrow> False | Some n \<Rightarrow> n \<noteq> 0)"

text \<open>\<^verbatim>\<open>String(s || "")\<close>.\<close>

definition js_str :: "string option \<Rightarrow> string" where
  "js_str v = (case v of None \<Rightarrow> [] | Some s \<Rightarrow> s)"

text \<open>\<^verbatim>\<open>Number(v || d)\<close> for a stored number.\<close>

definition js_num_or :: "int option \<Rightarrow> int \<Rightarrow> int" where
  "js_num_or v d = (case v of None \<Rightarrow> d | Some n \<Rightarrow> if n = 0 then d else n)"

text \<open>
  \<^verbatim>\<open>String.prototype.trim\<close>: white space and line terminators are removed from both ends.
  Among the code units a \<^typ>\<open>char\<close> holds these are TAB, LF, VT, FF, CR, SPACE and NBSP.
\<close>

definition js_whitespace :: "char \<Rightarrow> bool" where
  "js_whitespace c = (of_char c \<in> set [9, 10, 11, 12, 13, 32, 160 :: nat])"

definition trim :: "string \<Rightarrow> string" where
  "trim s = rev (dropWhile js_whitespace (rev (dropWhile js_whitespace s)))"

text \<open>\<^verbatim>\<open>s.replace(/x/g, "y")\<close> for single characters.\<close>

definition replace_all :: "char \<Rightarrow> char \<Rightarrow> string \<Rightarrow> string" where
  "replace_all x y s = map (\<lambda>c. if c = x then y else c) s"

text \<open>\<^verbatim>\<open>s.replace(/=+$/, "")\<close>.\<close>

definition strip_trailing_eq :: "string \<Rightarrow> string" where
  "strip_trailing_eq s = rev (dropWhile (\<lambda>c. c = CHR ''='') (rev s))"

section \<open>Base64: \<^verbatim>\<open>btoa\<close> and \<^verbatim>\<open>atob\<close>\<close>

definition b64_alphabet :: string where
  "b64_alphabet = ''ABCDEFGHIJKLMNOPQRSTUVWXYZabcdefghijklmnopqrstuvwxyz0123456789+/''"

definition b64c :: "nat \<Rightarrow> char" where
  "b64c n = b64_alphabet ! n"

fun index_of :: "'a list \<Rightarrow> 'a \<Rightarrow> nat option" where
  "index_of [] c = None"
| "index_of (x # xs) c = (if x = c then Some 0 else map_option Suc (index_of xs c))"

definition b64v :: "char \<Rightarrow> nat option" where
  "b64v c = index_of b64_alphabet c"

text \<open>The 6-bit groups of a byte string; a last group of one or two bytes is filled with zero bits.\<close>

fun b64_enc :: "bytes \<Rightarrow> nat list" where
  "b64_enc (a # b # c # r) =
     [unat a div 4, (unat a mod 4) * 16 + unat b div 16,
      (unat b mod 16) * 4 + unat c div 64, unat c mod 64] @ b64_enc r"
| "b64_enc [a, b] = [unat a div 4, (unat a mod 4) * 16 + unat b div 16, (unat b mod 16) * 4]"
| "b64_enc [a] = [unat a div 4, (unat a mod 4) * 16]"
| "b64_enc [] = []"

text \<open>The bytes of a list of 6-bit groups; the bits left over at the end are dropped.\<close>

fun b64_dec :: "nat list \<Rightarrow> bytes" where
  "b64_dec (s1 # s2 # s3 # s4 # r) =
     [of_nat (s1 * 4 + s2 div 16), of_nat ((s2 mod 16) * 16 + s3 div 4),
      of_nat ((s3 mod 4) * 64 + s4)] @ b64_dec r"
| "b64_dec [s1, s2, s3] = [of_nat (s1 * 4 + s2 div 16), of_nat ((s2 mod 16) * 16 + s3 div 4)]"
| "b64_dec [s1, s2] = [of_nat (s1 * 4 + s2 div 16)]"
| "b64_dec _ = []"

text \<open>
  \<^verbatim>\<open>btoa\<close> applied to the binary string \<^verbatim>\<open>String.fromCharCode(u8[0]) + ...\<close> of a byte
  array: the characters of the 6-bit groups, filled with \<^verbatim>\<open>=\<close> to a multiple of four.
\<close>

definition btoa :: "bytes \<Rightarrow> string" where
  "btoa bs = (let body = map b64c (b64_enc bs)
              in body @ replicate ((4 - length body mod 4) mod 4) CHR ''='')"

text \<open>The characters of \<^const>\<open>btoa\<close> before the filling.\<close>

definition b64_body :: "bytes \<Rightarrow> string" where
  "b64_body bs = map b64c (b64_enc bs)"

definition ascii_whitespace :: "char \<Rightarrow> bool" where
  "ascii_whitespace c = (of_char c \<in> set [9, 10, 12, 13, 32 :: nat])"

definition strip_padding :: "string \<Rightarrow> string" where
  "strip_padding s =
     (case rev s of
        c1 # c2 # r \<Rightarrow>
          if c1 = CHR ''='' \<and> c2 = CHR ''='' then rev r
          else if c1 = CHR ''='' then rev (c2 # r) else s
      | [c1] \<Rightarrow> if c1 = CHR ''='' then [] else s
      | [] \<Rightarrow> s)"

text \<open>
  \<^verbatim>\<open>atob\<close> is the forgiving-base64 decode of the HTML standard: ASCII white space is
  removed; when the length is a multiple of four, one or two final \<^verbatim>\<open>=\<close> are removed;
  a length of 1 modulo 4 or a character outside the alphabet raises
  \<^verbatim>\<open>InvalidCharacterError\<close> (\<^const>\<open>None\<close>). The result is returned as the bytes
  \<^verbatim>\<open>bin.charCodeAt(i)\<close> that the callers copy into a \<^verbatim>\<open>Uint8Array\<close>.
\<close>

definition atob :: "string \<Rightarrow> bytes option" where
  "atob data =
     (let s = filter (\<lambda>c. \<not> ascii_whitespace c) data;
          s = (if length s mod 4 = 0 then strip_padding s else s)
      in if length s mod 4 = 1 then None
         else case those (map b64v s) of
                None \<Rightarrow> None
              | Some vs \<Rightarrow> Some (b64_dec vs))"

subsection \<open>The helpers of options.js and background.js\<close>

text \<open>options.js \<^verbatim>\<open>b64u\<close>: \<^verbatim>\<open>btoa(s).replace(/\+/g, "-").replace(/\//g, "_").replace(/=+$/, "")\<close>.\<close>

definition b64u :: "bytes \<Rightarrow> string" where
  "b64u u8 = strip_trailing_eq (replace_all CHR ''/'' CHR ''_'' (replace_all CHR ''+'' CHR ''-'' (btoa u8)))"

text \<open>options.js \<^verbatim>\<open>u8ToB64u\<close> has the same body.\<close>

definition u8ToB64u :: "bytes \<Rightarrow> string" where
  "u8ToB64u u8 = strip_trailing_eq (replace_all CHR ''/'' CHR ''_'' (replace_all CHR ''+'' CHR ''-'' (btoa u8)))"

text \<open>background.js \<^verbatim>\<open>toB64u\<close> (local to the unlock handler) has the same body.\<close>

definition toB64u :: "bytes \<Rightarrow> string" where
  "toB64u u8 = strip_trailing_eq (replace_all CHR ''/'' CHR ''_'' (replace_all CHR ''+'' CHR ''-'' (btoa u8)))"

text \<open>\<^verbatim>\<open>while (s.length % 4) s += "=";\<close>\<close>

function pad4 :: "string \<Rightarrow> string" where
  "pad4 s = (if length s mod 4 \<noteq> 0 then pad4 (s @ ''='') else s)"
  by pat_completeness auto
termination
proof (relation "measure (\<lambda>s. (4 - length s mod 4) mod 4)")
  show "wf (measure (\<lambda>s. (4 - length s mod 4) mod 4))" by simp
next
  fix s :: string
  assume a: "length s mod 4 \<noteq> 0"
  have "length s mod 4 = 1 \<or> length s mod 4 = 2 \<or> length s mod 4 = 3"
    using a by presburger
  moreover have "length (s @ ''='') mod 4 = Suc (length s mod 4) mod 4"
    by (simp add: mod_Suc_eq)
  ultimately show "(s @ ''='', s) \<in> measure (\<lambda>s. (4 - length s mod 4) mod 4)"
    by auto
qed

declare pad4.simps [simp del]

text \<open>
  \<^verbatim>\<open>ub64\<close> (options.js, and the local copies in background.js):
  \<^verbatim>\<open>s.replace(/-/g, "+").replace(/_/g, "/")\<close>, the padding loop, \<^verbatim>\<open>atob\<close>.
  \<^const>\<open>None\<close> is the exception \<^verbatim>\<open>atob\<close> throws.
\<close>

definition ub64 :: "string \<Rightarrow> bytes option" where
  "ub64 s = atob (pad4 (replace_all CHR ''_'' CHR ''/'' (replace_all CHR ''-'' CHR ''+'' s)))"

section \<open>The platform: WebCrypto and the text codecs\<close>

text \<open>
  The browser's primitives are parameters of the model. A \<^verbatim>\<open>CryptoKey\<close> is identified
  with its raw bytes, so \<^verbatim>\<open>importKey("raw", ...)\<close> and \<^verbatim>\<open>exportKey("raw", ...)\<close> are the
  identity; an \<^verbatim>\<open>importKey\<close> that rejects its bytes is a failure of the operation that
  uses the key. \<^const>\<open>None\<close> is a rejected promise (\<^verbatim>\<open>OperationError\<close> and the like).
  \<^item> \<open>pbkdf2 pw salt iters\<close>: \<^verbatim>\<open>deriveKey\<close> with PBKDF2/SHA-256 to an AES-GCM 256 key;
  \<^item> \<open>aes_gcm_encrypt key iv pt\<close>, \<open>aes_gcm_decrypt key iv ct\<close>: \<^verbatim>\<open>crypto.subtle.encrypt/decrypt\<close>;
  \<^item> \<open>text_encode\<close>, \<open>text_decode\<close>: \<^verbatim>\<open>TextEncoder.encode\<close>, \<^verbatim>\<open>TextDecoder.decode\<close>.
\<close>

record platform =
  pbkdf2 :: "bytes \<Rightarrow> bytes \<Rightarrow> int \<Rightarrow> bytes option"
  aes_gcm_encrypt :: "bytes \<Rightarrow> bytes \<Rightarrow> bytes \<Rightarrow> bytes option"
  aes_gcm_decrypt :: "bytes \<Rightarrow> bytes \<Rightarrow> bytes \<Rightarrow> bytes option"
  text_encode :: "string \<Rightarrow> bytes"
  text_decode :: "bytes \<Rightarrow> string"

text \<open>
  The sequence \<^verbatim>\<open>importKey("raw", enc.encode(password), PBKDF2)\<close>, \<^verbatim>\<open>deriveKey\<close>,
  \<^verbatim>\<open>exportKey("raw", key)\<close> that the three handlers repeat.
\<close>

definition derive_raw :: "platform \<Rightarrow> string \<Rightarrow> bytes \<Rightarrow> int \<Rightarrow> bytes option" where
  "derive_raw X password salt iters = pbkdf2 X (text_encode X password) salt iters"

text \<open>
  What AES-GCM guarantees for one key, nonce and plaintext: when encryption returns a
  ciphertext, it is not empty (it ends with the authentication tag) and decryption under
  the same key and nonce returns the plaintext.
\<close>

definition gcm_round_trip :: "platform \<Rightarrow> bytes \<Rightarrow> bytes \<Rightarrow> bytes \<Rightarrow> bool" where
  "gcm_round_trip X key iv pt =
     (case aes_gcm_encrypt X key iv pt of
        None \<Rightarrow> True
      | Some ct \<Rightarrow> ct \<noteq> [] \<and> aes_gcm_decrypt X key iv ct = Some pt)"

section \<open>Persistent storage and the in-memory configuration\<close>

record storage =
  ALMA_PW_SALT :: "string option"
  ALMA_KDF_ITERS :: "int option"
  ALMA_KEK_B64 :: "string option"
  ALMA_API_KEY_C :: "string option"
  ALMA_API_KEY_IV :: "string option"
  ALMA_API_KEY_LEN :: "nat option"
  ALMA_REGION :: "string option"
  ALMA_API_KEY :: "string option"

text \<open>background.js \<^verbatim>\<open>CONFIG\<close>: the plaintext key held in memory (\<^verbatim>\<open>null\<close> is \<^const>\<open>None\<close>) and the region.\<close>

record config =
  CONFIG_ALMA_API_KEY :: "string option"
  CONFIG_ALMA_REGION :: string

text \<open>The state of background.js at process start.\<close>

definition initial_config :: config where
  "initial_config = \<lparr>CONFIG_ALMA_API_KEY = None, CONFIG_ALMA_REGION = ''NA''\<rparr>"

text \<open>The answer a message handler passes to \<^verbatim>\<open>sendResponse\<close>.\<close>

datatype response = OK | Err string

section \<open>background.js\<close>

definition refreshConfig :: "storage \<Rightarrow> config \<Rightarrow> config" where
  "refreshConfig st cfg =
     cfg\<lparr>CONFIG_ALMA_REGION :=
           (if truthy_str (ALMA_REGION st) then js_str (ALMA_REGION st) else CONFIG_ALMA_REGION cfg)\<rparr>"

text \<open>
  \<^verbatim>\<open>tryAutoUnlockFromKEK\<close>. Missing material returns \<^verbatim>\<open>false\<close> and leaves \<^verbatim>\<open>CONFIG\<close> alone;
  an exception in the \<^verbatim>\<open>try\<close> block (base64 decoding, decryption) reaches the \<^verbatim>\<open>catch\<close>
  branch, which sets \<^verbatim>\<open>CONFIG.ALMA_API_KEY = null\<close> and returns \<^verbatim>\<open>false\<close>.
\<close>

definition auto_unlock_missing :: "storage \<Rightarrow> bool" where
  "auto_unlock_missing st =
     (\<not> truthy_str (ALMA_API_KEY_C st) \<or> \<not> truthy_str (ALMA_API_KEY_IV st)
      \<or> \<not> truthy_str (ALMA_KEK_B64 st))"

definition tryAutoUnlockFromKEK :: "platform \<Rightarrow> storage \<Rightarrow> config \<Rightarrow> bool \<times> config" where
  "tryAutoUnlockFromKEK X st cfg =
     (if auto_unlock_missing st then (False, cfg)
      else case ub64 (js_str (ALMA_KEK_B64 st)) of
        None \<Rightarrow> (False, cfg\<lparr>CONFIG_ALMA_API_KEY := None\<rparr>)
      | Some kekRaw \<Rightarrow>
      (case ub64 (js_str (ALMA_API_KEY_IV st)) of
        None \<Rightarrow> (False, cfg\<lparr>CONFIG_ALMA_API_KEY := None\<rparr>)
      | Some iv \<Rightarrow>
      (case ub64 (js_str (ALMA_API_KEY_C st)) of
        None \<Rightarrow> (False, cfg\<lparr>CONFIG_ALMA_API_KEY := None\<rparr>)
      | Some ct \<Rightarrow>
      (case aes_gcm_decrypt X kekRaw iv ct of
        None \<Rightarrow> (False, cfg\<lparr>CONFIG_ALMA_API_KEY := None\<rparr>)
      | Some buf \<Rightarrow> (True, cfg\<lparr>CONFIG_ALMA_API_KEY := Some (text_decode X buf)\<rparr>)))))"

text \<open>\<^verbatim>\<open>getUsableKey\<close>: the key in memory when it is truthy, else one auto-unlock attempt.\<close>

definition getUsableKey :: "platform \<Rightarrow> storage \<Rightarrow> config \<Rightarrow> string option \<times> config" where
  "getUsableKey X st cfg =
     (if truthy_str (CONFIG_ALMA_API_KEY cfg) then (CONFIG_ALMA_API_KEY cfg, cfg)
      else case tryAutoUnlockFromKEK X st cfg of
             (ok, cfg') \<Rightarrow> (if ok then CONFIG_ALMA_API_KEY cfg' else None, cfg'))"

text \<open>The handler of the message \<^verbatim>\<open>UNLOCK_ALMA_KEY\<close>; \<open>password\<close> is \<^verbatim>\<open>request.password || ""\<close>.\<close>

definition UNLOCK_ALMA_KEY :: "platform \<Rightarrow> string \<Rightarrow> storage \<Rightarrow> config \<Rightarrow> response \<times> config" where
  "UNLOCK_ALMA_KEY X password st cfg =
     (let hasK = truthy_str (ALMA_KEK_B64 st);
          hasS = truthy_str (ALMA_PW_SALT st);
          hasI = truthy_num (ALMA_KDF_ITERS st)
      in if \<not> hasK \<and> \<not> hasS \<and> \<not> hasI
           then (Err ''No password set. Click Set Password first.'', cfg)
         else if hasK \<and> (\<not> hasS \<or> \<not> hasI)
           then (Err ''Password setting incomplete. Click Set Password to repair.'', cfg)
         else case ub64 (js_str (ALMA_PW_SALT st)) of
           None \<Rightarrow> (Err ''Unlock failed.'', cfg)
         | Some salt \<Rightarrow>
         (case derive_raw X password salt (js_num_or (ALMA_KDF_ITERS st) 200000) of
           None \<Rightarrow> (Err ''Unlock failed.'', cfg)
         | Some raw \<Rightarrow>
           if Some (toB64u raw) \<noteq> ALMA_KEK_B64 st then (Err ''Wrong password.'', cfg)
           else if truthy_str (ALMA_API_KEY_C st) \<and> truthy_str (ALMA_API_KEY_IV st) then
             (case ub64 (js_str (ALMA_API_KEY_IV st)) of
               None \<Rightarrow> (Err ''Unlock failed.'', cfg)
             | Some iv \<Rightarrow>
             (case ub64 (js_str (ALMA_API_KEY_C st)) of
               None \<Rightarrow> (Err ''Unlock failed.'', cfg)
             | Some ct \<Rightarrow>
             (case aes_gcm_decrypt X raw iv ct of
               None \<Rightarrow> (Err ''Unlock failed.'', cfg)
             | Some buf \<Rightarrow> (OK, cfg\<lparr>CONFIG_ALMA_API_KEY := Some (text_decode X buf)\<rparr>))))
           else (OK, cfg)))"

text \<open>The handler of \<^verbatim>\<open>LOCK_ALMA_KEY\<close>.\<close>

definition LOCK_ALMA_KEY :: "config \<Rightarrow> response \<times> config" where
  "LOCK_ALMA_KEY cfg = (OK, cfg\<lparr>CONFIG_ALMA_API_KEY := None\<rparr>)"

text \<open>
  \<^verbatim>\<open>ensureConfigLoaded\<close>, which the message listener awaits before it looks at the
  request: \<^verbatim>\<open>if (!CONFIG.ALMA_API_KEY || !CONFIG.ALMA_REGION) await refreshConfig()\<close>.
\<close>

definition ensureConfigLoaded :: "storage \<Rightarrow> config \<Rightarrow> config" where
  "ensureConfigLoaded st cfg =
     (if \<not> truthy_str (CONFIG_ALMA_API_KEY cfg) \<or> CONFIG_ALMA_REGION cfg = []
      then refreshConfig st cfg else cfg)"

text \<open>
  The handler of \<^verbatim>\<open>HAS_API_KEY\<close>:
  \<^verbatim>\<open>if (!CONFIG.ALMA_API_KEY) await tryAutoUnlockFromKEK();\<close> then the answer
  \<^verbatim>\<open>hasKey: !!CONFIG.ALMA_API_KEY\<close>.
\<close>

definition HAS_API_KEY :: "platform \<Rightarrow> storage \<Rightarrow> config \<Rightarrow> bool \<times> config" where
  "HAS_API_KEY X st cfg =
     (let cfg' = (if \<not> truthy_str (CONFIG_ALMA_API_KEY cfg)
                  then snd (tryAutoUnlockFromKEK X st cfg) else cfg)
      in (truthy_str (CONFIG_ALMA_API_KEY cfg'), cfg'))"

text \<open>The answer of \<^verbatim>\<open>REVEAL_ALMA_KEY\<close>: the key, or an error message.\<close>

datatype reveal_response = Revealed string | RevealErr string

text \<open>The handler of \<^verbatim>\<open>REVEAL_ALMA_KEY\<close>, with the same guarded auto-unlock first.\<close>

definition REVEAL_ALMA_KEY :: "platform \<Rightarrow> storage \<Rightarrow> config \<Rightarrow> reveal_response \<times> config" where
  "REVEAL_ALMA_KEY X st cfg =
     (let cfg' = (if \<not> truthy_str (CONFIG_ALMA_API_KEY cfg)
                  then snd (tryAutoUnlockFromKEK X st cfg) else cfg)
      in if \<not> truthy_str (CONFIG_ALMA_API_KEY cfg')
         then (RevealErr ''Key is locked or not set.'', cfg')
         else (Revealed (js_str (CONFIG_ALMA_API_KEY cfg')), cfg'))"

text \<open>
  The two states of the session: Unlocked when \<^verbatim>\<open>CONFIG.ALMA_API_KEY\<close> is truthy, which is
  the test every consumer of the key makes, and Locked otherwise.
\<close>

datatype session_state = Locked | Unlocked

definition session_of :: "config \<Rightarrow> session_state" where
  "session_of cfg = (if truthy_str (CONFIG_ALMA_API_KEY cfg) then Unlocked else Locked)"

section \<open>options.js\<close>

text \<open>
  The fields of the options page the handlers read, and whether the settings card carries
  the class \<^verbatim>\<open>disabled\<close> (set by \<^verbatim>\<open>setLockedUI(true)\<close> on load, removed after an unlock).
\<close>

record options_page =
  adminPassword :: string
  apiKey :: string
  region :: string
  settingsCard_disabled :: bool

text \<open>
  What a click handler reports: \<^verbatim>\<open>setStatus(id, msg, kind)\<close>, or an exception that leaves
  the handler with no status written.
\<close>

datatype outcome = Status string string string | Uncaught

text \<open>The test \<^verbatim>\<open>haveK && haveS && haveI\<close> of the set-password handler.\<close>

definition password_record_complete :: "storage \<Rightarrow> bool" where
  "password_record_complete st =
     (truthy_str (ALMA_KEK_B64 st) \<and> truthy_str (ALMA_PW_SALT st) \<and> truthy_num (ALMA_KDF_ITERS st))"

text \<open>
  The click handler of \<^verbatim>\<open>#setPassword\<close>; \<open>salt\<close> is the value of
  \<^verbatim>\<open>crypto.getRandomValues(new Uint8Array(16))\<close>. The handler has no \<^verbatim>\<open>try\<close> block.
\<close>

definition setPassword_click :: "platform \<Rightarrow> bytes \<Rightarrow> options_page \<Rightarrow> storage \<Rightarrow> outcome \<times> storage" where
  "setPassword_click X salt page st =
     (let password = trim (adminPassword page) in
      if password = [] then (Status ''lockStatus'' ''Enter a password to set.'' ''err'', st)
      else
        let haveK = truthy_str (ALMA_KEK_B64 st);
            haveS = truthy_str (ALMA_PW_SALT st);
            haveI = truthy_num (ALMA_KDF_ITERS st)
        in if haveK \<and> haveS \<and> haveI
             then (Status ''lockStatus'' ''Password already set. Use Unlock to edit.'' ''err'', st)
           else case derive_raw X password salt 200000 of
             None \<Rightarrow> (Uncaught, st)
           | Some raw \<Rightarrow>
               (Status ''lockStatus'' ''Password set. You can now Unlock and Save the API key.'' ''ok'',
                st\<lparr>ALMA_PW_SALT := Some (b64u salt),
                   ALMA_KDF_ITERS := Some 200000,
                   ALMA_KEK_B64 := Some (u8ToB64u raw)\<rparr>))"

text \<open>
  The click handler of \<^verbatim>\<open>#save\<close>; \<open>iv\<close> is the value of
  \<^verbatim>\<open>crypto.getRandomValues(new Uint8Array(12))\<close>. In the message of the missing-password
  branch the source has an arrow character where this text has \<^verbatim>\<open>->\<close>.
\<close>

definition save_click :: "platform \<Rightarrow> bytes \<Rightarrow> options_page \<Rightarrow> storage \<Rightarrow> outcome \<times> storage" where
  "save_click X iv page st =
     (if settingsCard_disabled page then (Status ''status'' ''Unlock first.'' ''err'', st)
      else
        let apiKey = trim (apiKey page);
            region = (if region page = [] then ''NA'' else region page)
        in if apiKey = []
             then (Status ''status'' ''Saved region.'' ''ok'', st\<lparr>ALMA_REGION := Some region\<rparr>)
           else
             let pw = trim (adminPassword page) in
             if pw = []
               then (Status ''status'' ''Enter password in Admin unlock to encrypt.'' ''err'', st)
             else if \<not> truthy_str (ALMA_PW_SALT st) \<or> \<not> truthy_num (ALMA_KDF_ITERS st)
                     \<or> \<not> truthy_str (ALMA_KEK_B64 st)
               then (Status ''status'' ''Set password first (Admin unlock -> Set Password).'' ''err'', st)
             else case ub64 (js_str (ALMA_PW_SALT st)) of
               None \<Rightarrow> (Status ''status'' ''Save failed. See console.'' ''err'', st)
             | Some salt \<Rightarrow>
             (case derive_raw X pw salt (js_num_or (ALMA_KDF_ITERS st) 200000) of
               None \<Rightarrow> (Status ''status'' ''Save failed. See console.'' ''err'', st)
             | Some raw \<Rightarrow>
               if Some (u8ToB64u raw) \<noteq> ALMA_KEK_B64 st
                 then (Status ''status'' ''Wrong password for encryption.'' ''err'', st)
               else
                 (case aes_gcm_encrypt X raw iv (text_encode X apiKey) of
                   None \<Rightarrow> (Status ''status'' ''Save failed. See console.'' ''err'', st)
                 | Some ct \<Rightarrow>
                     (Status ''status'' ''Saved settings (encrypted).'' ''ok'',
                      st\<lparr>ALMA_API_KEY_C := Some (b64u ct),
                         ALMA_API_KEY_IV := Some (b64u iv),
                         ALMA_API_KEY_LEN := Some (length apiKey),
                         ALMA_REGION := Some region\<rparr>))))"

text \<open>
  The click handler of \<^verbatim>\<open>#clear\<close>:
  \<^verbatim>\<open>store.remove(["ALMA_API_KEY", "ALMA_API_KEY_C", "ALMA_API_KEY_IV", "ALMA_KDF_ITERS", "ALMA_PW_SALT", "ALMA_KEK_B64"])\<close>.
\<close>

definition clear_click :: "options_page \<Rightarrow> storage \<Rightarrow> outcome \<times> storage" where
  "clear_click page st =
     (if settingsCard_disabled page then (Status ''status'' ''Unlock first.'' ''err'', st)
      else (Status ''status'' ''Cleared API key.'' ''ok'',
            st\<lparr>ALMA_API_KEY := None,
               ALMA_API_KEY_C := None,
               ALMA_API_KEY_IV := None,
               ALMA_KDF_ITERS := None,
               ALMA_PW_SALT := None,
               ALMA_KEK_B64 := None\<rparr>))"

text \<open>
  The click handler of \<^verbatim>\<open>#unlock\<close>: the trimmed password is sent to the background with
  \<^verbatim>\<open>UNLOCK_ALMA_KEY\<close>; on \<^verbatim>\<open>res.ok\<close> the settings card is enabled (\<^verbatim>\<open>setLockedUI(false)\<close>).
  The message is taken to be delivered (no \<^verbatim>\<open>chrome.runtime.lastError\<close>).
\<close>

definition unlock_click ::
  "platform \<Rightarrow> options_page \<Rightarrow> storage \<Rightarrow> config \<Rightarrow> outcome \<times> options_page \<times> config" where
  "unlock_click X page st cfg =
     (let password = trim (adminPassword page) in
      if password = [] then (Status ''lockStatus'' ''Enter a password.'' ''err'', page, cfg)
      else case UNLOCK_ALMA_KEY X password st cfg of
        (OK, cfg') \<Rightarrow>
          (Status ''lockStatus'' ''Unlocked.'' ''ok'', page\<lparr>settingsCard_disabled := False\<rparr>, cfg')
      | (Err e, cfg') \<Rightarrow>
          (Status ''lockStatus'' (if e = [] then ''Unlock failed.'' else e) ''err'', page, cfg'))"

text \<open>
  \<^verbatim>\<open>paintMaskedIfEncrypted\<close>: the number of bullets written into the key field, 0 when
  the field is emptied.
\<close>

definition masked_length :: "storage \<Rightarrow> nat" where
  "masked_length st =
     (if truthy_str (ALMA_API_KEY_C st) \<and> truthy_str (ALMA_API_KEY_IV st)
      then max 1 (case ALMA_API_KEY_LEN st of None \<Rightarrow> 10 | Some n \<Rightarrow> if n = 0 then 10 else n)
      else 0)"

section \<open>A test platform and sample values\<close>

text \<open>
  A small stand-in for WebCrypto on which the handlers can be run: the derived key is the
  password bytes followed by the salt, and a ciphertext is the masked plaintext followed by
  a two-byte tag taken from the key, so that decryption under another key fails.
\<close>

definition test_platform :: platform where
  "test_platform =
     \<lparr>pbkdf2 = (\<lambda>pw salt iters. if iters < 1 then None else Some (pw @ salt)),
      aes_gcm_encrypt = (\<lambda>key iv pt. Some (map (\<lambda>b. b XOR 42) pt @ take 2 key)),
      aes_gcm_decrypt = (\<lambda>key iv ct.
         if 2 \<le> length ct \<and> drop (length ct - 2) ct = take 2 key
         then Some (map (\<lambda>b. b XOR 42) (take (length ct - 2) ct)) else None),
      text_encode = map (\<lambda>c. of_nat (of_char c)),
      text_decode = map (\<lambda>b. char_of (unat b))\<rparr>"

definition empty_storage :: storage where
  "empty_storage =
     \<lparr>ALMA_PW_SALT = None, ALMA_KDF_ITERS = None, ALMA_KEK_B64 = None,
      ALMA_API_KEY_C = None, ALMA_API_KEY_IV = None, ALMA_API_KEY_LEN = None,
      ALMA_REGION = None, ALMA_API_KEY = None\<rparr>"

definition sample_salt :: bytes where
  "sample_salt = [1, 2, 3, 4, 5, 6, 7, 8, 9, 10, 11, 12, 13, 14, 15, 16]"

definition sample_iv :: bytes where
  "sample_iv = [21, 22, 23, 24, 25, 26, 27, 28, 29, 30, 31, 32]"

definition page_of :: "string \<Rightarrow> string \<Rightarrow> string \<Rightarrow> bool \<Rightarrow> options_page" where
  "page_of pw key reg dis =
     \<lparr>adminPassword = pw, apiKey = key, region = reg, settingsCard_disabled = dis\<rparr>"

definition stored_password :: storage where
  "stored_password =
     empty_storage\<lparr>ALMA_PW_SALT := Some ''AQIDBAUGBwgJCgsMDQ4PEA'',
                   ALMA_KDF_ITERS := Some 200000,
                   ALMA_KEK_B64 := Some ''U2VzYW1lMQECAwQFBgcICQoLDA0ODxA''\<rparr>"

definition stored_credential :: storage where
  "stored_credential =
     stored_password\<lparr>ALMA_API_KEY_C := Some ''WUEHXk9ZXgcbGBkeH1Nl'',
                     ALMA_API_KEY_IV := Some ''FRYXGBkaGxwdHh8g'',
                     ALMA_API_KEY_LEN := Some 13,
                     ALMA_REGION := Some ''NA''\<rparr>"

definition sample_kek :: bytes where
  "sample_kek = [83, 101, 115, 97, 109, 101, 49, 1, 2, 3, 4, 5, 6, 7, 8, 9, 10, 11, 12, 13, 14, 15, 16]"

definition salt_only_storage :: storage where
  "salt_only_storage = empty_storage\<lparr>ALMA_PW_SALT := Some ''AQIDBAUGBwgJCgsMDQ4PEA''\<rparr>"

definition tampered_credential :: storage where
  "tampered_credential = stored_credential\<lparr>ALMA_API_KEY_C := Some ''AAAA''\<rparr>"

definition unlocked_config :: config where
  "unlocked_config = initial_config\<lparr>CONFIG_ALMA_API_KEY := Some ''sk-test-12345''\<rparr>"

text \<open>A password record whose three fields are stored, with an iteration count of 0.\<close>

definition zero_iters_storage :: storage where
  "zero_iters_storage = stored_password\<lparr>ALMA_KDF_ITERS := Some 0\<rparr>"

section \<open>Base64 round trip\<close>

lemma byte_lt: "unat (a :: 8 word) < 256"
  using unsigned_less [of a, where 'a = nat] by simp

lemma dec_enc3:
  fixes a b c :: "8 word"
  shows "b64_dec ([unat a div 4, (unat a mod 4) * 16 + unat b div 16,
      (unat b mod 16) * 4 + unat c div 64, unat c mod 64] @ r) = [a, b, c] @ b64_dec r"
proof -
  have lb: "unat b < 256" and lc: "unat c < 256" by (rule byte_lt)+
  have 1: "unat a div 4 * 4 + ((unat a mod 4) * 16 + unat b div 16) div 16 = unat a"
    using lb by (simp add: less_mult_imp_div_less)
  have 2: "(((unat a mod 4) * 16 + unat b div 16) mod 16) * 16 + ((unat b mod 16) * 4 + unat c div 64) div 4 = unat b"
    using lb lc by (simp add: less_mult_imp_div_less)
  have 3: "(((unat b mod 16) * 4 + unat c div 64) mod 4) * 64 + unat c mod 64 = unat c"
    using lc by (simp add: less_mult_imp_div_less)
  show ?thesis by (simp only: b64_dec.simps append_Cons append_Nil 1 2 3) simp
qed

lemma b64_dec_enc: "b64_dec (b64_enc bs) = bs"
proof (induction bs rule: b64_enc.induct)
  case (1 a b c r)
  then show ?case using dec_enc3 [of a b c "b64_enc r"] by simp
next
  case (2 a b)
  have lb: "unat b < 256" by (rule byte_lt)
  have 1: "unat a div 4 * 4 + ((unat a mod 4) * 16 + unat b div 16) div 16 = unat a"
    using lb by (simp add: less_mult_imp_div_less)
  have 2: "(((unat a mod 4) * 16 + unat b div 16) mod 16) * 16 + ((unat b mod 16) * 4) div 4 = unat b"
    using lb by (simp add: less_mult_imp_div_less)
  show ?case by (simp only: b64_enc.simps b64_dec.simps 1 2) simp
next
  case (3 a)
  have 1: "unat a div 4 * 4 + ((unat a mod 4) * 16) div 16 = unat a" by simp
  show ?case by (simp only: b64_enc.simps b64_dec.simps 1) simp
qed simp

lemma b64_enc_lt: "n \<in> set (b64_enc bs) \<Longrightarrow> n < 64"
proof (induction bs rule: b64_enc.induct)
  case (1 a b c r)
  have "unat a < 256" "unat b < 256" "unat c < 256" by (rule byte_lt)+
  then have "unat a div 4 < 64" "(unat a mod 4) * 16 + unat b div 16 < 64"
    "(unat b mod 16) * 4 + unat c div 64 < 64" "unat c mod 64 < 64"
    by (simp_all add: less_mult_imp_div_less)
  with 1 show ?case by auto
next
  case (2 a b)
  have "unat a < 256" "unat b < 256" by (rule byte_lt)+
  then have "unat a div 4 < 64" "(unat a mod 4) * 16 + unat b div 16 < 64"
    "(unat b mod 16) * 4 < 64"
    by (simp_all add: less_mult_imp_div_less)
  with 2 show ?case by auto
next
  case (3 a)
  have "unat a < 256" by (rule byte_lt)
  then have "unat a div 4 < 64" "(unat a mod 4) * 16 < 64"
    by (simp_all add: less_mult_imp_div_less)
  with 3 show ?case by auto
qed simp

lemma b64_enc_length: "length (b64_enc bs) mod 4 \<noteq> 1"
  by (induction bs rule: b64_enc.induct) simp_all

lemma b64_enc_Nil: "b64_enc bs = [] \<longleftrightarrow> bs = []"
  by (induction bs rule: b64_enc.induct) simp_all

lemma index_of_nth: "distinct xs \<Longrightarrow> n < length xs \<Longrightarrow> index_of xs (xs ! n) = Some n"
proof (induction xs arbitrary: n)
  case Nil
  then show ?case by simp
next
  case (Cons x xs)
  show ?case
  proof (cases n)
    case 0
    then show ?thesis by simp
  next
    case (Suc m)
    with Cons.prems have "xs ! m \<in> set xs" "x \<notin> set xs" by auto
    then have "x \<noteq> xs ! m" by auto
    with Suc Cons show ?thesis by simp
  qed
qed

lemma b64_alphabet_distinct: "distinct b64_alphabet"
  by (simp add: b64_alphabet_def)

lemma b64_alphabet_length: "length b64_alphabet = 64"
  by (simp add: b64_alphabet_def)

lemma b64v_b64c: "n < 64 \<Longrightarrow> b64v (b64c n) = Some n"
  unfolding b64v_def b64c_def
  by (rule index_of_nth) (simp_all add: b64_alphabet_distinct b64_alphabet_length)

lemma b64c_alphabet: "n < 64 \<Longrightarrow> b64c n \<in> set b64_alphabet"
  by (simp add: b64c_def b64_alphabet_length)

lemma those_b64v: "\<forall>n\<in>set vs. n < 64 \<Longrightarrow> those (map b64v (map b64c vs)) = Some vs"
  by (induction vs) (simp_all add: b64v_b64c)

lemma pad4_eq: "pad4 s = s @ replicate ((4 - length s mod 4) mod 4) CHR ''=''"
proof (induction s rule: pad4.induct)
  case (1 s)
  show ?case
  proof (cases "length s mod 4 = 0")
    case True
    then show ?thesis by (simp add: pad4.simps)
  next
    case False
    then have d: "length s mod 4 = 1 \<or> length s mod 4 = 2 \<or> length s mod 4 = 3"
      by presburger
    then have "(4 - length s mod 4) mod 4 = Suc ((4 - Suc (length s) mod 4) mod 4)"
      by (elim disjE) (simp_all add: mod_Suc)
    with False 1 show ?thesis
      by (subst pad4.simps) (simp add: replicate_app_Cons_same)
  qed
qed


lemma strip_trailing_eq_append:
  assumes "CHR ''='' \<notin> set s"
  shows "strip_trailing_eq (s @ replicate k CHR ''='') = s"
proof -
  have "dropWhile (\<lambda>c. c = CHR ''='') (replicate k CHR ''='' @ rev s) = dropWhile (\<lambda>c. c = CHR ''='') (rev s)"
    by (rule dropWhile_append2) simp
  also have "\<dots> = rev s"
  proof (cases s rule: rev_cases)
    case Nil
    then show ?thesis by simp
  next
    case (snoc ys y)
    with assms show ?thesis by auto
  qed
  finally show ?thesis by (simp add: strip_trailing_eq_def)
qed

lemma strip_padding_append:
  assumes "CHR ''='' \<notin> set s" "k \<le> 2"
  shows "strip_padding (s @ replicate k CHR ''='') = s"
proof -
  from assms(2) have k: "k = 0 \<or> k = Suc 0 \<or> k = Suc (Suc 0)" by arith
  show ?thesis
  proof (cases s rule: rev_cases)
    case Nil
    with k show ?thesis by (elim disjE) (simp_all add: strip_padding_def)
  next
    case (snoc ys y)
    with assms(1) have y: "y \<noteq> CHR ''=''" by auto
    show ?thesis
    proof (cases ys rule: rev_cases)
      case Nil
      with k y snoc show ?thesis by (elim disjE) (simp_all add: strip_padding_def)
    next
      case (snoc zs z)
      with k y \<open>s = ys @ [y]\<close> show ?thesis by (elim disjE) (simp_all add: strip_padding_def)
    qed
  qed
qed

lemma alphabet_chars:
  assumes "c \<in> set b64_alphabet"
  shows "c \<noteq> CHR ''=''" "c \<noteq> CHR ''-''" "c \<noteq> CHR ''_''" "\<not> ascii_whitespace c"
  using assms by (auto simp: b64_alphabet_def ascii_whitespace_def)

lemma b64_body_alphabet: "c \<in> set (b64_body bs) \<Longrightarrow> c \<in> set b64_alphabet"
  by (auto simp: b64_body_def b64c_alphabet b64_enc_lt)

lemma atob_padded:
  "atob (b64_body bs @ replicate ((4 - length (b64_body bs) mod 4) mod 4) CHR ''='') = Some bs"
proof -
  let ?b = "b64_body bs"
  let ?k = "(4 - length ?b mod 4) mod 4"
  have noeq: "CHR ''='' \<notin> set ?b" using b64_body_alphabet alphabet_chars(1) by blast
  have nows: "filter (\<lambda>c. \<not> ascii_whitespace c) (?b @ replicate ?k CHR ''='') = ?b @ replicate ?k CHR ''=''"
    using b64_body_alphabet alphabet_chars(4) by (auto simp: filter_id_conv ascii_whitespace_def)
  have l1: "length ?b mod 4 \<noteq> 1" using b64_enc_length [of bs] by (simp add: b64_body_def)
  have "length ?b mod 4 < 4" by simp
  with l1 have m: "length ?b mod 4 = 0 \<or> length ?b mod 4 = 2 \<or> length ?b mod 4 = 3"
    by linarith
  have len: "length (?b @ replicate ?k CHR ''='') mod 4 = 0"
    using m by (elim disjE) (simp_all add: mod_Suc)
  have k2: "?k \<le> 2" using m by (elim disjE) simp_all
  have sp: "strip_padding (?b @ replicate ?k CHR ''='') = ?b"
    by (rule strip_padding_append [OF noeq k2])
  have th: "those (map b64v ?b) = Some (b64_enc bs)"
    unfolding b64_body_def by (rule those_b64v) (simp add: b64_enc_lt)
  show ?thesis
    unfolding atob_def nows Let_def using len sp l1 th by (simp add: b64_dec_enc)
qed

lemma b64u_body: "b64u bs = replace_all CHR ''/'' CHR ''_'' (replace_all CHR ''+'' CHR ''-'' (b64_body bs))"
proof -
  let ?f = "\<lambda>s. replace_all CHR ''/'' CHR ''_'' (replace_all CHR ''+'' CHR ''-'' s)"
  have "?f (btoa bs) = ?f (b64_body bs) @ replicate ((4 - length (b64_body bs) mod 4) mod 4) CHR ''=''"
    by (simp add: btoa_def b64_body_def replace_all_def Let_def)
  moreover have "CHR ''='' \<notin> set (?f (b64_body bs))"
    using b64_body_alphabet alphabet_chars(1) by (auto simp: replace_all_def)
  ultimately show ?thesis
    unfolding b64u_def using strip_trailing_eq_append by simp
qed

lemma replace_all_undo: "y \<notin> set s \<Longrightarrow> replace_all y x (replace_all x y s) = s"
  by (induction s) (auto simp: replace_all_def)

lemma replace_all_comm:
  "a \<noteq> c \<Longrightarrow> a \<noteq> d \<Longrightarrow> b \<noteq> c \<Longrightarrow> replace_all a b (replace_all c d s) = replace_all c d (replace_all a b s)"
  by (induction s) (auto simp: replace_all_def)

lemma unurl_url:
  "replace_all CHR ''_'' CHR ''/'' (replace_all CHR ''-'' CHR ''+''
     (replace_all CHR ''/'' CHR ''_'' (replace_all CHR ''+'' CHR ''-'' (b64_body bs)))) = b64_body bs"
proof -
  have m: "CHR ''-'' \<notin> set (b64_body bs)" and u: "CHR ''_'' \<notin> set (b64_body bs)"
    using b64_body_alphabet alphabet_chars(2,3) by blast+
  have "replace_all CHR ''-'' CHR ''+'' (replace_all CHR ''/'' CHR ''_'' (replace_all CHR ''+'' CHR ''-'' (b64_body bs)))
      = replace_all CHR ''/'' CHR ''_'' (replace_all CHR ''-'' CHR ''+'' (replace_all CHR ''+'' CHR ''-'' (b64_body bs)))"
    by (rule replace_all_comm) simp_all
  also have "\<dots> = replace_all CHR ''/'' CHR ''_'' (b64_body bs)"
    by (simp only: replace_all_undo [OF m])
  finally show ?thesis
    by (simp only: replace_all_undo [OF u])
qed

lemma ub64_b64u: "ub64 (b64u bs) = Some bs"
  unfolding ub64_def b64u_body unurl_url pad4_eq by (rule atob_padded)

lemma b64u_Nil: "b64u bs = [] \<longleftrightarrow> bs = []"
  by (simp add: b64u_body replace_all_def b64_body_def b64_enc_Nil)

lemma b64u_inj: "b64u a = b64u b \<Longrightarrow> a = b"
  by (metis ub64_b64u option.inject)

lemma u8ToB64u_eq: "u8ToB64u = b64u"
  by (rule ext) (simp add: u8ToB64u_def b64u_def)

lemma toB64u_eq: "toB64u = b64u"
  by (rule ext) (simp add: toB64u_def b64u_def)

section \<open>What a successful handler run tells about the storage\<close>

lemma truthy_b64u: "truthy_str (Some (b64u bs)) \<longleftrightarrow> bs \<noteq> []"
  by (simp add: truthy_str_def b64u_Nil)

lemma setPassword_ok_elim:
  assumes "setPassword_click X salt page st =
     (Status ''lockStatus'' ''Password set. You can now Unlock and Save the API key.'' ''ok'', st')"
  obtains raw where "trim (adminPassword page) \<noteq> []"
    and "derive_raw X (trim (adminPassword page)) salt 200000 = Some raw"
    and "st' = st\<lparr>ALMA_PW_SALT := Some (b64u salt), ALMA_KDF_ITERS := Some 200000,
                   ALMA_KEK_B64 := Some (b64u raw)\<rparr>"
  using assms
  by (auto simp: setPassword_click_def Let_def u8ToB64u_eq split: if_splits option.splits)

lemma save_ok_elim:
  assumes "save_click X iv page st = (Status ''status'' ''Saved settings (encrypted).'' ''ok'', st')"
  obtains salt raw ct where "\<not> settingsCard_disabled page"
    and "trim (apiKey page) \<noteq> []" and "trim (adminPassword page) \<noteq> []"
    and "truthy_str (ALMA_PW_SALT st)" and "truthy_num (ALMA_KDF_ITERS st)"
    and "ub64 (js_str (ALMA_PW_SALT st)) = Some salt"
    and "derive_raw X (trim (adminPassword page)) salt (js_num_or (ALMA_KDF_ITERS st) 200000) = Some raw"
    and "ALMA_KEK_B64 st = Some (b64u raw)" and "raw \<noteq> []"
    and "aes_gcm_encrypt X raw iv (text_encode X (trim (apiKey page))) = Some ct"
    and "st' = st\<lparr>ALMA_API_KEY_C := Some (b64u ct), ALMA_API_KEY_IV := Some (b64u iv),
                   ALMA_API_KEY_LEN := Some (length (trim (apiKey page))),
                   ALMA_REGION := Some (if region page = [] then ''NA'' else region page)\<rparr>"
proof -
  from assms have 1: "\<not> settingsCard_disabled page" "trim (apiKey page) \<noteq> []"
      "trim (adminPassword page) \<noteq> []" "truthy_str (ALMA_PW_SALT st)"
      "truthy_num (ALMA_KDF_ITERS st)" "truthy_str (ALMA_KEK_B64 st)"
    by (auto simp: save_click_def Let_def split: if_splits)
  with assms obtain salt where 2: "ub64 (js_str (ALMA_PW_SALT st)) = Some salt"
    by (auto simp: save_click_def Let_def split: option.splits)
  with 1 assms obtain raw where 3:
    "derive_raw X (trim (adminPassword page)) salt (js_num_or (ALMA_KDF_ITERS st) 200000) = Some raw"
    by (auto simp: save_click_def Let_def split: option.splits)
  with 1 2 assms have 4: "ALMA_KEK_B64 st = Some (b64u raw)"
    by (auto simp: save_click_def Let_def u8ToB64u_eq split: if_splits)
  with 1 have 5: "raw \<noteq> []" by (simp add: truthy_b64u)
  from 1 2 3 4 assms obtain ct where 6:
    "aes_gcm_encrypt X raw iv (text_encode X (trim (apiKey page))) = Some ct"
    by (auto simp: save_click_def Let_def u8ToB64u_eq split: option.splits)
  with 1 2 3 4 assms have 7: "st' = st\<lparr>ALMA_API_KEY_C := Some (b64u ct), ALMA_API_KEY_IV := Some (b64u iv),
                   ALMA_API_KEY_LEN := Some (length (trim (apiKey page))),
                   ALMA_REGION := Some (if region page = [] then ''NA'' else region page)\<rparr>"
    by (auto simp: save_click_def Let_def u8ToB64u_eq)
  from 1 2 3 4 5 6 7 that show thesis by blast
qed

lemma unlock_with_credential:
  assumes "truthy_num (ALMA_KDF_ITERS st)"
    and "ALMA_PW_SALT st = Some (b64u salt)" "salt \<noteq> []"
    and "ALMA_KEK_B64 st = Some (b64u raw)" "raw \<noteq> []"
    and "ALMA_API_KEY_C st = Some (b64u ct)" "ct \<noteq> []"
    and "ALMA_API_KEY_IV st = Some (b64u iv)" "iv \<noteq> []"
    and "derive_raw X password salt (js_num_or (ALMA_KDF_ITERS st) 200000) = Some raw"
    and "aes_gcm_decrypt X raw iv ct = Some buf"
  shows "UNLOCK_ALMA_KEY X password st cfg = (OK, cfg\<lparr>CONFIG_ALMA_API_KEY := Some (text_decode X buf)\<rparr>)"
  using assms
  by (simp add: UNLOCK_ALMA_KEY_def Let_def truthy_b64u js_str_def ub64_b64u toB64u_eq)

lemma auto_unlock_with_credential:
  assumes "ALMA_KEK_B64 st = Some (b64u raw)" "raw \<noteq> []"
    and "ALMA_API_KEY_C st = Some (b64u ct)" "ct \<noteq> []"
    and "ALMA_API_KEY_IV st = Some (b64u iv)" "iv \<noteq> []"
    and "aes_gcm_decrypt X raw iv ct = Some buf"
  shows "tryAutoUnlockFromKEK X st cfg = (True, cfg\<lparr>CONFIG_ALMA_API_KEY := Some (text_decode X buf)\<rparr>)"
  using assms
  by (simp add: tryAutoUnlockFromKEK_def auto_unlock_missing_def truthy_b64u js_str_def ub64_b64u)

section \<open>The handlers on the test platform\<close>

lemma test_setup:
  "setPassword_click test_platform sample_salt (page_of ''Sesame1'' [] [] True) empty_storage =
     (Status ''lockStatus'' ''Password set. You can now Unlock and Save the API key.'' ''ok'',
      stored_password)"
  by code_simp

lemma test_save:
  "save_click test_platform sample_iv (page_of ''Sesame1'' ''sk-test-12345'' ''NA'' False) stored_password =
     (Status ''status'' ''Saved settings (encrypted).'' ''ok'', stored_credential)"
  by code_simp

lemma test_save_spaces:
  "save_click test_platform sample_iv (page_of ''Sesame1'' '' sk-test-12345 '' ''NA'' False) stored_password =
     (Status ''status'' ''Saved settings (encrypted).'' ''ok'', stored_credential)"
  by code_simp

lemma test_derive: "derive_raw test_platform (trim ''Sesame1'') sample_salt 200000 = Some sample_kek"
  by code_simp

lemma test_kek: "ub64 (js_str (ALMA_KEK_B64 stored_password)) = Some sample_kek"
  by code_simp

lemma test_gcm:
  "gcm_round_trip test_platform sample_kek sample_iv (text_encode test_platform ''sk-test-12345'')"
  by code_simp

lemma test_utf8: "text_decode test_platform (text_encode test_platform ''sk-test-12345'') = ''sk-test-12345''"
  by code_simp

lemma test_trim: "trim '' sk-test-12345 '' = ''sk-test-12345''" "trim ''sk-test-12345'' = ''sk-test-12345''"
  by code_simp+

lemma sample_iv_nonempty: "sample_iv \<noteq> []"
  by (simp add: sample_iv_def)

lemma sample_salt_nonempty: "sample_salt \<noteq> []"
  by (simp add: sample_salt_def)

section \<open>Save, lock, unlock\<close>

text \<open>
  C1, as amended. After a first-time password setup with the password field \<open>P\<close> and a save
  of the key field \<open>T\<close> under the same password that reports an encrypted save, locking and
  then unlocking with \<open>P\<close> reports success and leaves in memory exactly \<open>trim T\<close>: the key
  field with leading and trailing white space removed, which is \<open>T\<close> itself when \<open>T\<close> has
  none. The platform is assumed to decrypt what it encrypted under the derived key \<open>raw\<close>
  and to decode the text it encoded.
\<close>

theorem save_unlock_round_trip:
  assumes init: "setPassword_click X salt (page_of P ka ra da) st0 =
      (Status ''lockStatus'' ''Password set. You can now Unlock and Save the API key.'' ''ok'', st1)"
    and save: "save_click X iv (page_of P T rb db) st1 =
      (Status ''status'' ''Saved settings (encrypted).'' ''ok'', st2)"
    and iv: "iv \<noteq> []"
    and raw: "derive_raw X (trim P) salt 200000 = Some raw"
    and gcm: "gcm_round_trip X raw iv (text_encode X (trim T))"
    and utf8: "text_decode X (text_encode X (trim T)) = trim T"
  shows "unlock_click X (page_of P kc rc dc) st2 (snd (LOCK_ALMA_KEY cfg)) =
      (Status ''lockStatus'' ''Unlocked.'' ''ok'', page_of P kc rc False,
       cfg\<lparr>CONFIG_ALMA_API_KEY := Some (trim T)\<rparr>)"
proof -
  from init obtain raw' where p: "trim P \<noteq> []"
    and r': "derive_raw X (trim P) salt 200000 = Some raw'"
    and st1: "st1 = st0\<lparr>ALMA_PW_SALT := Some (b64u salt), ALMA_KDF_ITERS := Some 200000,
                   ALMA_KEK_B64 := Some (b64u raw')\<rparr>"
    by (rule setPassword_ok_elim) (simp_all add: page_of_def)
  from r' raw have [simp]: "raw' = raw" by simp
  from save obtain s rw ct where
        ts: "truthy_str (ALMA_PW_SALT st1)"
    and kek: "ALMA_KEK_B64 st1 = Some (b64u rw)" and rw: "rw \<noteq> []"
    and enc: "aes_gcm_encrypt X rw iv (text_encode X (trim T)) = Some ct"
    and st2: "st2 = st1\<lparr>ALMA_API_KEY_C := Some (b64u ct), ALMA_API_KEY_IV := Some (b64u iv),
                   ALMA_API_KEY_LEN := Some (length (trim T)),
                   ALMA_REGION := Some (if rb = [] then ''NA'' else rb)\<rparr>"
    by (rule save_ok_elim) (simp_all add: page_of_def)
  from kek st1 have [simp]: "rw = raw" by (simp add: b64u_inj)
  from ts st1 have salt: "salt \<noteq> []" by (simp add: truthy_b64u)
  from gcm enc have ct: "ct \<noteq> []" and dec: "aes_gcm_decrypt X raw iv ct = Some (text_encode X (trim T))"
    by (simp_all add: gcm_round_trip_def)
  have "UNLOCK_ALMA_KEY X (trim P) st2 (cfg\<lparr>CONFIG_ALMA_API_KEY := None\<rparr>) =
      (OK, cfg\<lparr>CONFIG_ALMA_API_KEY := None\<rparr>\<lparr>CONFIG_ALMA_API_KEY := Some (text_decode X (text_encode X (trim T)))\<rparr>)"
    by (rule unlock_with_credential [where salt = salt and raw = raw and ct = ct and iv = iv])
       (use st1 st2 salt rw ct iv raw dec in \<open>simp_all add: truthy_num_def js_num_or_def\<close>)
  with p utf8 show ?thesis
    by (simp add: unlock_click_def LOCK_ALMA_KEY_def page_of_def)
qed

theorem save_unlock_round_trip_witness:
  "setPassword_click test_platform sample_salt (page_of ''Sesame1'' [] [] True) empty_storage =
     (Status ''lockStatus'' ''Password set. You can now Unlock and Save the API key.'' ''ok'',
      stored_password)
   \<and> save_click test_platform sample_iv (page_of ''Sesame1'' '' sk-test-12345 '' ''NA'' False) stored_password =
     (Status ''status'' ''Saved settings (encrypted).'' ''ok'', stored_credential)
   \<and> sample_iv \<noteq> []
   \<and> derive_raw test_platform (trim ''Sesame1'') sample_salt 200000 = Some sample_kek
   \<and> gcm_round_trip test_platform sample_kek sample_iv (text_encode test_platform (trim '' sk-test-12345 ''))
   \<and> text_decode test_platform (text_encode test_platform (trim '' sk-test-12345 '')) = trim '' sk-test-12345 ''
   \<and> unlock_click test_platform (page_of ''Sesame1'' [] [] True) stored_credential (snd (LOCK_ALMA_KEY unlocked_config)) =
      (Status ''lockStatus'' ''Unlocked.'' ''ok'', page_of ''Sesame1'' [] [] False,
       unlocked_config\<lparr>CONFIG_ALMA_API_KEY := Some ''sk-test-12345''\<rparr>)"
proof -
  have g: "gcm_round_trip test_platform sample_kek sample_iv (text_encode test_platform (trim '' sk-test-12345 ''))"
    using test_gcm by (simp add: test_trim)
  have u: "text_decode test_platform (text_encode test_platform (trim '' sk-test-12345 '')) = trim '' sk-test-12345 ''"
    using test_utf8 by (simp add: test_trim)
  show ?thesis
    using save_unlock_round_trip [OF test_setup test_save_spaces sample_iv_nonempty test_derive g u,
        where kc = "[]" and rc = "[]" and dc = True and cfg = unlocked_config]
      test_setup test_save_spaces sample_iv_nonempty test_derive g u
    by (simp add: test_trim)
qed

text \<open>
  C1 as stated fails: with the key field \<^verbatim>\<open>" sk-test-12345 "\<close> the setup and the save
  succeed, and after lock and unlock the key in memory is not that string (it is the
  trimmed one, as the witness above shows).
\<close>

theorem save_unlock_exact_counterexample:
  "setPassword_click test_platform sample_salt (page_of ''Sesame1'' [] [] True) empty_storage =
     (Status ''lockStatus'' ''Password set. You can now Unlock and Save the API key.'' ''ok'',
      stored_password)
   \<and> save_click test_platform sample_iv (page_of ''Sesame1'' '' sk-test-12345 '' ''NA'' False) stored_password =
     (Status ''status'' ''Saved settings (encrypted).'' ''ok'', stored_credential)
   \<and> fst (unlock_click test_platform (page_of ''Sesame1'' [] [] True)
         stored_credential (snd (LOCK_ALMA_KEY unlocked_config))) = Status ''lockStatus'' ''Unlocked.'' ''ok''
   \<and> CONFIG_ALMA_API_KEY (snd (snd (unlock_click test_platform (page_of ''Sesame1'' [] [] True)
         stored_credential (snd (LOCK_ALMA_KEY unlocked_config))))) \<noteq> Some '' sk-test-12345 ''"
  by code_simp

section \<open>Auto-unlock\<close>

text \<open>
  C2. After a save that reports an encrypted save, \<^const>\<open>tryAutoUnlockFromKEK\<close>, which
  takes no password, returns \<^verbatim>\<open>true\<close> and leaves the saved (trimmed) key in memory, and
  \<^const>\<open>getUsableKey\<close> returns that key, both when started from a locked session (as after
  a restart) and when started after the auto-unlock that background.js runs on start.
  The same holds in every stored state \<open>st''\<close> that agrees with the saved one on the
  ciphertext, the nonce and the persisted KEK: nothing else is read. \<open>kek\<close> are the
  persisted KEK bytes; the platform is assumed to decrypt under them what the save
  encrypted, and to decode the text it encoded.
\<close>

theorem auto_unlock_after_save:
  assumes save: "save_click X iv page st =
      (Status ''status'' ''Saved settings (encrypted).'' ''ok'', st')"
    and iv: "iv \<noteq> []"
    and kek: "ub64 (js_str (ALMA_KEK_B64 st)) = Some kek"
    and gcm: "gcm_round_trip X kek iv (text_encode X (trim (apiKey page)))"
    and utf8: "text_decode X (text_encode X (trim (apiKey page))) = trim (apiKey page)"
    and same: "ALMA_API_KEY_C st'' = ALMA_API_KEY_C st'" "ALMA_API_KEY_IV st'' = ALMA_API_KEY_IV st'"
              "ALMA_KEK_B64 st'' = ALMA_KEK_B64 st'"
  shows "tryAutoUnlockFromKEK X st'' cfg = (True, cfg\<lparr>CONFIG_ALMA_API_KEY := Some (trim (apiKey page))\<rparr>)
    \<and> getUsableKey X st'' (cfg\<lparr>CONFIG_ALMA_API_KEY := None\<rparr>) =
        (Some (trim (apiKey page)), cfg\<lparr>CONFIG_ALMA_API_KEY := Some (trim (apiKey page))\<rparr>)
    \<and> getUsableKey X st'' (snd (tryAutoUnlockFromKEK X st'' cfg)) =
        (Some (trim (apiKey page)), cfg\<lparr>CONFIG_ALMA_API_KEY := Some (trim (apiKey page))\<rparr>)"
proof -
  from save obtain s rw ct where
        ne: "trim (apiKey page) \<noteq> []"
    and k: "ALMA_KEK_B64 st = Some (b64u rw)" and rw: "rw \<noteq> []"
    and enc: "aes_gcm_encrypt X rw iv (text_encode X (trim (apiKey page))) = Some ct"
    and st': "st' = st\<lparr>ALMA_API_KEY_C := Some (b64u ct), ALMA_API_KEY_IV := Some (b64u iv),
                   ALMA_API_KEY_LEN := Some (length (trim (apiKey page))),
                   ALMA_REGION := Some (if region page = [] then ''NA'' else region page)\<rparr>"
    by (rule save_ok_elim)
  from k kek have [simp]: "rw = kek" by (simp add: js_str_def ub64_b64u)
  from gcm enc have ct: "ct \<noteq> []"
    and dec: "aes_gcm_decrypt X kek iv ct = Some (text_encode X (trim (apiKey page)))"
    by (simp_all add: gcm_round_trip_def)
  have a: "tryAutoUnlockFromKEK X st'' c =
      (True, c\<lparr>CONFIG_ALMA_API_KEY := Some (text_decode X (text_encode X (trim (apiKey page))))\<rparr>)" for c
    by (rule auto_unlock_with_credential [where raw = kek and ct = ct and iv = iv])
       (use same st' k rw ct iv dec in simp_all)
  then show ?thesis
    using utf8 ne by (simp add: getUsableKey_def truthy_str_def)
qed

text \<open>
  The scenario of the specification on the test platform: password \<^verbatim>\<open>Sesame1\<close>, key
  \<^verbatim>\<open>sk-test-12345\<close>, then a fresh process.
\<close>

theorem auto_unlock_after_save_witness:
  "save_click test_platform sample_iv (page_of ''Sesame1'' ''sk-test-12345'' ''NA'' False) stored_password =
     (Status ''status'' ''Saved settings (encrypted).'' ''ok'', stored_credential)
   \<and> sample_iv \<noteq> []
   \<and> ub64 (js_str (ALMA_KEK_B64 stored_password)) = Some sample_kek
   \<and> gcm_round_trip test_platform sample_kek sample_iv (text_encode test_platform (trim ''sk-test-12345''))
   \<and> text_decode test_platform (text_encode test_platform (trim ''sk-test-12345'')) = trim ''sk-test-12345''
   \<and> tryAutoUnlockFromKEK test_platform stored_credential initial_config =
        (True, initial_config\<lparr>CONFIG_ALMA_API_KEY := Some ''sk-test-12345''\<rparr>)
   \<and> getUsableKey test_platform stored_credential (initial_config\<lparr>CONFIG_ALMA_API_KEY := None\<rparr>) =
        (Some ''sk-test-12345'', initial_config\<lparr>CONFIG_ALMA_API_KEY := Some ''sk-test-12345''\<rparr>)
   \<and> getUsableKey test_platform stored_credential
          (snd (tryAutoUnlockFromKEK test_platform stored_credential initial_config)) =
        (Some ''sk-test-12345'', initial_config\<lparr>CONFIG_ALMA_API_KEY := Some ''sk-test-12345''\<rparr>)"
proof -
  have p: "apiKey (page_of ''Sesame1'' ''sk-test-12345'' ''NA'' False) = ''sk-test-12345''"
    by (simp add: page_of_def)
  have g: "gcm_round_trip test_platform sample_kek sample_iv
      (text_encode test_platform (trim (apiKey (page_of ''Sesame1'' ''sk-test-12345'' ''NA'' False))))"
    using test_gcm by (simp add: p test_trim)
  have u: "text_decode test_platform (text_encode test_platform
        (trim (apiKey (page_of ''Sesame1'' ''sk-test-12345'' ''NA'' False)))) =
      trim (apiKey (page_of ''Sesame1'' ''sk-test-12345'' ''NA'' False))"
    using test_utf8 by (simp add: p test_trim)
  have g': "gcm_round_trip test_platform sample_kek sample_iv (text_encode test_platform (trim ''sk-test-12345''))"
    using test_gcm by (simp add: test_trim)
  have u': "text_decode test_platform (text_encode test_platform (trim ''sk-test-12345'')) = trim ''sk-test-12345''"
    using test_utf8 by (simp add: test_trim)
  from auto_unlock_after_save [OF test_save sample_iv_nonempty test_kek g u refl refl refl,
        where cfg = initial_config]
  have a: "tryAutoUnlockFromKEK test_platform stored_credential initial_config =
        (True, initial_config\<lparr>CONFIG_ALMA_API_KEY := Some ''sk-test-12345''\<rparr>)"
    and b: "getUsableKey test_platform stored_credential (initial_config\<lparr>CONFIG_ALMA_API_KEY := None\<rparr>) =
        (Some ''sk-test-12345'', initial_config\<lparr>CONFIG_ALMA_API_KEY := Some ''sk-test-12345''\<rparr>)"
    and c: "getUsableKey test_platform stored_credential
          (snd (tryAutoUnlockFromKEK test_platform stored_credential initial_config)) =
        (Some ''sk-test-12345'', initial_config\<lparr>CONFIG_ALMA_API_KEY := Some ''sk-test-12345''\<rparr>)"
    unfolding p test_trim by blast+
  from test_save sample_iv_nonempty test_kek g' u' a b c show ?thesis
    by (intro conjI)
qed

section \<open>Unlocking with another password\<close>

text \<open>
  C3, as amended. After a first-time setup with the password field \<open>P\<close>, an unlock with a
  password field \<open>Q\<close> whose trimmed form is not empty and derives, under the stored salt and
  iteration count, a key other than the one of the trimmed \<open>P\<close>, answers
  \<^verbatim>\<open>Wrong password.\<close> and leaves the configuration in memory as it was; both for the
  background handler and for the unlock button of the options page.
\<close>

theorem unlock_wrong_password:
  assumes init: "setPassword_click X salt (page_of P ka ra da) st0 =
      (Status ''lockStatus'' ''Password set. You can now Unlock and Save the API key.'' ''ok'', st1)"
    and salt: "salt \<noteq> []"
    and q: "trim Q \<noteq> []"
    and rawQ: "derive_raw X (trim Q) salt 200000 = Some rawQ"
    and differ: "derive_raw X (trim Q) salt 200000 \<noteq> derive_raw X (trim P) salt 200000"
  shows "UNLOCK_ALMA_KEY X (trim Q) st1 cfg = (Err ''Wrong password.'', cfg)
    \<and> unlock_click X (page_of Q kb rb db) st1 cfg =
        (Status ''lockStatus'' ''Wrong password.'' ''err'', page_of Q kb rb db, cfg)"
proof -
  from init obtain raw where
        r: "derive_raw X (trim P) salt 200000 = Some raw"
    and st1: "st1 = st0\<lparr>ALMA_PW_SALT := Some (b64u salt), ALMA_KDF_ITERS := Some 200000,
                   ALMA_KEK_B64 := Some (b64u raw)\<rparr>"
    by (rule setPassword_ok_elim) (simp_all add: page_of_def)
  from r rawQ differ have ne: "b64u rawQ \<noteq> b64u raw" by (auto dest: b64u_inj)
  have "UNLOCK_ALMA_KEY X (trim Q) st1 cfg = (Err ''Wrong password.'', cfg)"
    using st1 salt rawQ ne
    by (simp add: UNLOCK_ALMA_KEY_def Let_def truthy_b64u truthy_num_def js_str_def js_num_or_def
        ub64_b64u toB64u_eq)
  with q show ?thesis by (simp add: unlock_click_def page_of_def)
qed

theorem unlock_wrong_password_witness:
  "setPassword_click test_platform sample_salt (page_of ''Sesame1'' [] [] True) empty_storage =
     (Status ''lockStatus'' ''Password set. You can now Unlock and Save the API key.'' ''ok'',
      stored_password)
   \<and> sample_salt \<noteq> []
   \<and> trim ''Sesame2'' \<noteq> []
   \<and> derive_raw test_platform (trim ''Sesame2'') sample_salt 200000 =
        Some [83, 101, 115, 97, 109, 101, 50, 1, 2, 3, 4, 5, 6, 7, 8, 9, 10, 11, 12, 13, 14, 15, 16]
   \<and> derive_raw test_platform (trim ''Sesame2'') sample_salt 200000 \<noteq>
        derive_raw test_platform (trim ''Sesame1'') sample_salt 200000
   \<and> UNLOCK_ALMA_KEY test_platform (trim ''Sesame2'') stored_password unlocked_config =
        (Err ''Wrong password.'', unlocked_config)
   \<and> unlock_click test_platform (page_of ''Sesame2'' [] [] True) stored_password unlocked_config =
        (Status ''lockStatus'' ''Wrong password.'' ''err'', page_of ''Sesame2'' [] [] True, unlocked_config)"
proof -
  have q: "trim ''Sesame2'' \<noteq> []" by code_simp
  have r: "derive_raw test_platform (trim ''Sesame2'') sample_salt 200000 =
        Some [83, 101, 115, 97, 109, 101, 50, 1, 2, 3, 4, 5, 6, 7, 8, 9, 10, 11, 12, 13, 14, 15, 16]"
    by code_simp
  have d: "derive_raw test_platform (trim ''Sesame2'') sample_salt 200000 \<noteq>
        derive_raw test_platform (trim ''Sesame1'') sample_salt 200000"
    by code_simp
  show ?thesis
    using unlock_wrong_password [OF test_setup sample_salt_nonempty q r d,
        where kb = "[]" and rb = "[]" and db = True and cfg = unlocked_config]
      test_setup sample_salt_nonempty q r d
    by simp
qed

text \<open>
  C3 as stated fails: \<^verbatim>\<open>" a"\<close> and \<^verbatim>\<open>"a"\<close> are non-empty, different, and derive
  different keys, yet after a setup with \<^verbatim>\<open>" a"\<close> the unlock with \<^verbatim>\<open>"a"\<close> succeeds,
  because the setup handler stores the key of the trimmed password.
\<close>

theorem unlock_trimmed_password_counterexample:
  "'' a'' \<noteq> ''a''
   \<and> derive_raw test_platform '' a'' sample_salt 200000 \<noteq> derive_raw test_platform ''a'' sample_salt 200000
   \<and> fst (setPassword_click test_platform sample_salt (page_of '' a'' [] [] True) empty_storage) =
        Status ''lockStatus'' ''Password set. You can now Unlock and Save the API key.'' ''ok''
   \<and> UNLOCK_ALMA_KEY test_platform ''a''
        (snd (setPassword_click test_platform sample_salt (page_of '' a'' [] [] True) empty_storage))
        initial_config = (OK, initial_config)
   \<and> fst (unlock_click test_platform (page_of ''a'' [] [] True)
        (snd (setPassword_click test_platform sample_salt (page_of '' a'' [] [] True) empty_storage))
        initial_config) = Status ''lockStatus'' ''Unlocked.'' ''ok''"
  by code_simp

section \<open>Unlocking on an incomplete or credential-free vault\<close>

text \<open>
  C4. The claim asks for the incomplete-setup answer when only the salt is stored. The
  handler tests \<^verbatim>\<open>hasK && (!hasS || !hasI)\<close>, which needs the KEK to be present, so with
  only a (truthy) salt stored it goes on with the default iteration count and compares the
  derived key with \<^verbatim>\<open>undefined\<close>: the answer is \<^verbatim>\<open>Wrong password.\<close> for every password
  (\<^verbatim>\<open>Unlock failed.\<close> when the salt does not decode or the derivation fails), never
  \<^verbatim>\<open>Password setting incomplete.\<close>
\<close>

theorem unlock_salt_only:
  assumes "truthy_str (ALMA_PW_SALT st)" "ALMA_KDF_ITERS st = None" "ALMA_KEK_B64 st = None"
  shows "UNLOCK_ALMA_KEY X password st cfg =
     (case ub64 (js_str (ALMA_PW_SALT st)) of
        None \<Rightarrow> (Err ''Unlock failed.'', cfg)
      | Some salt \<Rightarrow>
          (case derive_raw X password salt 200000 of
             None \<Rightarrow> (Err ''Unlock failed.'', cfg)
           | Some raw \<Rightarrow> (Err ''Wrong password.'', cfg)))"
  using assms
  by (simp add: UNLOCK_ALMA_KEY_def Let_def truthy_str_def truthy_num_def js_num_or_def
      split: option.splits)

theorem unlock_salt_only_witness:
  "truthy_str (ALMA_PW_SALT salt_only_storage)
   \<and> ALMA_KDF_ITERS salt_only_storage = None
   \<and> ALMA_KEK_B64 salt_only_storage = None
   \<and> UNLOCK_ALMA_KEY test_platform ''Sesame1'' salt_only_storage initial_config =
        (Err ''Wrong password.'', initial_config)"
proof -
  have s: "truthy_str (ALMA_PW_SALT salt_only_storage)" by code_simp
  have i: "ALMA_KDF_ITERS salt_only_storage = None" by code_simp
  have k: "ALMA_KEK_B64 salt_only_storage = None" by code_simp
  have u: "ub64 (js_str (ALMA_PW_SALT salt_only_storage)) = Some sample_salt" by code_simp
  have d: "derive_raw test_platform ''Sesame1'' sample_salt 200000 = Some sample_kek" by code_simp
  show ?thesis
    using unlock_salt_only [OF s i k, of test_platform "''Sesame1''" initial_config] s i k
    by (simp add: u d)
qed

text \<open>
  C7. With a complete password record, no stored credential (ciphertext or nonce falsy)
  and the correct password (the key derived under the stored salt and iteration count is
  the stored KEK), the unlock handler answers \<^verbatim>\<open>ok\<close> and does not touch the configuration
  in memory: a session without a key stays without a key.
\<close>

theorem unlock_without_credential:
  assumes "password_record_complete st"
    and "\<not> truthy_str (ALMA_API_KEY_C st) \<or> \<not> truthy_str (ALMA_API_KEY_IV st)"
    and "ub64 (js_str (ALMA_PW_SALT st)) = Some salt"
    and "derive_raw X password salt (js_num_or (ALMA_KDF_ITERS st) 200000) = Some raw"
    and "ALMA_KEK_B64 st = Some (toB64u raw)"
  shows "UNLOCK_ALMA_KEY X password st cfg = (OK, cfg)"
  using assms by (auto simp: UNLOCK_ALMA_KEY_def password_record_complete_def Let_def)

theorem unlock_without_credential_witness:
  "password_record_complete stored_password
   \<and> \<not> truthy_str (ALMA_API_KEY_C stored_password)
   \<and> \<not> truthy_str (ALMA_API_KEY_IV stored_password)
   \<and> ub64 (js_str (ALMA_PW_SALT stored_password)) = Some sample_salt
   \<and> derive_raw test_platform ''Sesame1'' sample_salt (js_num_or (ALMA_KDF_ITERS stored_password) 200000) =
        Some sample_kek
   \<and> ALMA_KEK_B64 stored_password = Some (toB64u sample_kek)
   \<and> UNLOCK_ALMA_KEY test_platform ''Sesame1'' stored_password initial_config = (OK, initial_config)
   \<and> CONFIG_ALMA_API_KEY initial_config = None"
proof -
  have c: "password_record_complete stored_password" by code_simp
  have nc: "\<not> truthy_str (ALMA_API_KEY_C stored_password)"
    and ni: "\<not> truthy_str (ALMA_API_KEY_IV stored_password)"
    by code_simp+
  from nc have n: "\<not> truthy_str (ALMA_API_KEY_C stored_password) \<or> \<not> truthy_str (ALMA_API_KEY_IV stored_password)"
    by (rule disjI1)
  have u: "ub64 (js_str (ALMA_PW_SALT stored_password)) = Some sample_salt" by code_simp
  have d: "derive_raw test_platform ''Sesame1'' sample_salt (js_num_or (ALMA_KDF_ITERS stored_password) 200000) =
        Some sample_kek" by code_simp
  have k: "ALMA_KEK_B64 stored_password = Some (toB64u sample_kek)" by code_simp
  show ?thesis
    using unlock_without_credential [OF c n u d k, of initial_config] c nc ni u d k
    by (simp add: initial_config_def)
qed

section \<open>Failed unlocks and the session\<close>

text \<open>
  C8. A failed unlock and a failed auto-unlock leave the session state as it was, for
  every session state and every stored state.
  \<^item> An unlock that does not answer \<^verbatim>\<open>ok\<close> returns the configuration in memory unchanged,
    for the background handler and for the unlock button alike; the listener's
    \<^const>\<open>ensureConfigLoaded\<close> before the handler never touches the key.
  \<^item> The code attempts an auto-unlock in four places: \<^const>\<open>getUsableKey\<close>, the handlers
    \<^const>\<open>HAS_API_KEY\<close> and \<^const>\<open>REVEAL_ALMA_KEY\<close>, each only when the key in memory is
    falsy, and once at start, when it is \<^verbatim>\<open>null\<close>. When the attempt fails, the session
    state after it is the state before it.
  \<^item> From an Unlocked session none of the three makes an attempt, and the configuration is
    returned unchanged: no failing auto-unlock takes an Unlocked session to Locked.
  \<^item> \<^const>\<open>tryAutoUnlockFromKEK\<close> itself, when it returns \<^verbatim>\<open>false\<close>, leaves the configuration
    alone if stored material is missing and sets the key to \<^verbatim>\<open>null\<close> in its \<^verbatim>\<open>catch\<close>
    branch otherwise; started from a Locked session, as the code starts it, the session
    is Locked afterwards.
\<close>

theorem failed_unlock_session:
  "(fst (UNLOCK_ALMA_KEY X password st cfg) \<noteq> OK \<longrightarrow> snd (UNLOCK_ALMA_KEY X password st cfg) = cfg)
   \<and> (fst (unlock_click X page st cfg) \<noteq> Status ''lockStatus'' ''Unlocked.'' ''ok'' \<longrightarrow>
        snd (unlock_click X page st cfg) = (page, cfg))
   \<and> CONFIG_ALMA_API_KEY (ensureConfigLoaded st cfg) = CONFIG_ALMA_API_KEY cfg
   \<and> (fst (getUsableKey X st cfg) = None \<longrightarrow>
        session_of (snd (getUsableKey X st cfg)) = session_of cfg)
   \<and> (\<not> fst (HAS_API_KEY X st cfg) \<longrightarrow>
        session_of (snd (HAS_API_KEY X st cfg)) = session_of cfg)
   \<and> (fst (REVEAL_ALMA_KEY X st cfg) = RevealErr ''Key is locked or not set.'' \<longrightarrow>
        session_of (snd (REVEAL_ALMA_KEY X st cfg)) = session_of cfg)
   \<and> (\<not> fst (tryAutoUnlockFromKEK X st initial_config) \<longrightarrow>
        snd (tryAutoUnlockFromKEK X st initial_config) = initial_config)
   \<and> (session_of cfg = Unlocked \<longrightarrow>
        snd (getUsableKey X st cfg) = cfg \<and> snd (HAS_API_KEY X st cfg) = cfg
        \<and> snd (REVEAL_ALMA_KEY X st cfg) = cfg)
   \<and> (\<not> fst (tryAutoUnlockFromKEK X st cfg) \<longrightarrow>
        snd (tryAutoUnlockFromKEK X st cfg) =
          (if auto_unlock_missing st then cfg else cfg\<lparr>CONFIG_ALMA_API_KEY := None\<rparr>))
   \<and> (session_of cfg = Locked \<and> \<not> fst (tryAutoUnlockFromKEK X st cfg) \<longrightarrow>
        session_of (snd (tryAutoUnlockFromKEK X st cfg)) = Locked)"
proof -
  have u: "fst (UNLOCK_ALMA_KEY X pw st cfg) \<noteq> OK \<longrightarrow> snd (UNLOCK_ALMA_KEY X pw st cfg) = cfg" for pw
    by (auto simp: UNLOCK_ALMA_KEY_def Let_def split: option.splits)
  have c: "fst (unlock_click X page st cfg) \<noteq> Status ''lockStatus'' ''Unlocked.'' ''ok'' \<longrightarrow>
        snd (unlock_click X page st cfg) = (page, cfg)"
  proof (cases "UNLOCK_ALMA_KEY X (trim (adminPassword page)) st cfg")
    case (Pair r cfg')
    with u [of "trim (adminPassword page)"] show ?thesis
      by (cases r) (auto simp: unlock_click_def Let_def)
  qed
  have e: "CONFIG_ALMA_API_KEY (ensureConfigLoaded st cfg) = CONFIG_ALMA_API_KEY cfg"
    by (simp add: ensureConfigLoaded_def refreshConfig_def)
  have a: "\<not> fst (tryAutoUnlockFromKEK X st k) \<longrightarrow>
        snd (tryAutoUnlockFromKEK X st k) =
          (if auto_unlock_missing st then k else k\<lparr>CONFIG_ALMA_API_KEY := None\<rparr>)" for k
    by (auto simp: tryAutoUnlockFromKEK_def split: option.splits)
  have l: "session_of k = Locked \<and> \<not> fst (tryAutoUnlockFromKEK X st k) \<longrightarrow>
        session_of (snd (tryAutoUnlockFromKEK X st k)) = Locked" for k
    using a [of k] by (auto simp: session_of_def truthy_str_def split: if_splits)
  have g: "fst (getUsableKey X st cfg) = None \<longrightarrow>
        session_of (snd (getUsableKey X st cfg)) = session_of cfg"
  proof (cases "truthy_str (CONFIG_ALMA_API_KEY cfg)")
    case True
    then show ?thesis by (auto simp: getUsableKey_def truthy_str_def)
  next
    case False
    show ?thesis
    proof (cases "fst (tryAutoUnlockFromKEK X st cfg)")
      case True
      with False show ?thesis
        by (auto simp: getUsableKey_def tryAutoUnlockFromKEK_def split: prod.splits option.splits if_splits)
    next
      case nf: False
      with False l [of cfg] show ?thesis
        by (auto simp: getUsableKey_def session_of_def split: prod.splits)
    qed
  qed
  have h: "\<not> fst (HAS_API_KEY X st cfg) \<longrightarrow>
        session_of (snd (HAS_API_KEY X st cfg)) = session_of cfg"
    by (auto simp: HAS_API_KEY_def Let_def session_of_def)
  have r: "fst (REVEAL_ALMA_KEY X st cfg) = RevealErr ''Key is locked or not set.'' \<longrightarrow>
        session_of (snd (REVEAL_ALMA_KEY X st cfg)) = session_of cfg"
    by (auto simp: REVEAL_ALMA_KEY_def Let_def session_of_def split: if_splits)
  have s: "\<not> fst (tryAutoUnlockFromKEK X st initial_config) \<longrightarrow>
        snd (tryAutoUnlockFromKEK X st initial_config) = initial_config"
    using a [of initial_config] by (auto simp: initial_config_def)
  have n: "session_of cfg = Unlocked \<longrightarrow>
        snd (getUsableKey X st cfg) = cfg \<and> snd (HAS_API_KEY X st cfg) = cfg
        \<and> snd (REVEAL_ALMA_KEY X st cfg) = cfg"
    by (auto simp: session_of_def getUsableKey_def HAS_API_KEY_def REVEAL_ALMA_KEY_def Let_def
        split: if_splits)
  from u [of password] c e g h r s n a [of cfg] l [of cfg] show ?thesis by (intro conjI)
qed

theorem failed_unlock_session_witness:
  "fst (UNLOCK_ALMA_KEY test_platform ''Sesame2'' tampered_credential unlocked_config) \<noteq> OK
   \<and> snd (UNLOCK_ALMA_KEY test_platform ''Sesame2'' tampered_credential unlocked_config) = unlocked_config
   \<and> fst (unlock_click test_platform (page_of ''Sesame2'' [] [] True) tampered_credential unlocked_config)
        \<noteq> Status ''lockStatus'' ''Unlocked.'' ''ok''
   \<and> snd (unlock_click test_platform (page_of ''Sesame2'' [] [] True) tampered_credential unlocked_config) =
        (page_of ''Sesame2'' [] [] True, unlocked_config)
   \<and> fst (getUsableKey test_platform tampered_credential initial_config) = None
   \<and> session_of (snd (getUsableKey test_platform tampered_credential initial_config)) = Locked
   \<and> \<not> fst (HAS_API_KEY test_platform tampered_credential initial_config)
   \<and> session_of (snd (HAS_API_KEY test_platform tampered_credential initial_config)) = Locked
   \<and> fst (REVEAL_ALMA_KEY test_platform tampered_credential initial_config) =
        RevealErr ''Key is locked or not set.''
   \<and> session_of (snd (REVEAL_ALMA_KEY test_platform tampered_credential initial_config)) = Locked
   \<and> \<not> fst (tryAutoUnlockFromKEK test_platform tampered_credential initial_config)
   \<and> snd (tryAutoUnlockFromKEK test_platform tampered_credential initial_config) = initial_config
   \<and> session_of unlocked_config = Unlocked
   \<and> snd (getUsableKey test_platform tampered_credential unlocked_config) = unlocked_config
   \<and> snd (HAS_API_KEY test_platform tampered_credential unlocked_config) = unlocked_config
   \<and> snd (REVEAL_ALMA_KEY test_platform tampered_credential unlocked_config) = unlocked_config"
proof -
  let ?X = test_platform and ?st = tampered_credential
  have a: "fst (UNLOCK_ALMA_KEY ?X ''Sesame2'' ?st unlocked_config) \<noteq> OK" by code_simp
  have b: "fst (unlock_click ?X (page_of ''Sesame2'' [] [] True) ?st unlocked_config)
        \<noteq> Status ''lockStatus'' ''Unlocked.'' ''ok''" by code_simp
  have g: "fst (getUsableKey ?X ?st initial_config) = None" by code_simp
  have h: "\<not> fst (HAS_API_KEY ?X ?st initial_config)" by code_simp
  have r: "fst (REVEAL_ALMA_KEY ?X ?st initial_config) = RevealErr ''Key is locked or not set.''"
    by code_simp
  have s: "\<not> fst (tryAutoUnlockFromKEK ?X ?st initial_config)" by code_simp
  have l: "session_of initial_config = Locked" by code_simp
  have n: "session_of unlocked_config = Unlocked" by code_simp
  note at_unlocked = failed_unlock_session [of ?X "''Sesame2''" ?st unlocked_config
        "page_of ''Sesame2'' [] [] True"]
  note at_locked = failed_unlock_session [of ?X "''Sesame2''" ?st initial_config
        "page_of ''Sesame2'' [] [] True"]
  from at_unlocked a have 1: "snd (UNLOCK_ALMA_KEY ?X ''Sesame2'' ?st unlocked_config) = unlocked_config"
    by blast
  from at_unlocked b have 2: "snd (unlock_click ?X (page_of ''Sesame2'' [] [] True) ?st unlocked_config) =
        (page_of ''Sesame2'' [] [] True, unlocked_config)"
    by blast
  from at_locked g l have 3: "session_of (snd (getUsableKey ?X ?st initial_config)) = Locked"
    by metis
  from at_locked h l have 4: "session_of (snd (HAS_API_KEY ?X ?st initial_config)) = Locked"
    by metis
  from at_locked r l have 5: "session_of (snd (REVEAL_ALMA_KEY ?X ?st initial_config)) = Locked"
    by metis
  from at_locked s have 6: "snd (tryAutoUnlockFromKEK ?X ?st initial_config) = initial_config"
    by blast
  from at_unlocked n have 7: "snd (getUsableKey ?X ?st unlocked_config) = unlocked_config"
    and 8: "snd (HAS_API_KEY ?X ?st unlocked_config) = unlocked_config"
    and 9: "snd (REVEAL_ALMA_KEY ?X ?st unlocked_config) = unlocked_config"
    by blast+
  from a 1 b 2 g 3 h 4 r 5 s 6 n 7 8 9 show ?thesis by (intro conjI)
qed

section \<open>Set password, clear, save\<close>

text \<open>
  C6, as amended. When a complete password record is stored (salt, iteration count and KEK
  all stored and truthy: the handler's test \<^verbatim>\<open>haveK && haveS && haveI\<close>), the set-password
  handler reports an error and leaves the storage as it is:
  \<^verbatim>\<open>Password already set. Use Unlock to edit.\<close> when the trimmed password is not empty,
  \<^verbatim>\<open>Enter a password to set.\<close> when it is. Whenever the handler reports that the password
  was set, or changes the storage at all, no complete record was stored. A record that is
  not complete, one with a field missing or falsy, is replaced by a new one when the
  password is not blank and the key derivation succeeds.
\<close>

theorem setPassword_already_set:
  "(password_record_complete st \<longrightarrow>
      setPassword_click X salt page st =
        (Status ''lockStatus''
           (if trim (adminPassword page) = [] then ''Enter a password to set.''
            else ''Password already set. Use Unlock to edit.'') ''err'', st))
   \<and> (fst (setPassword_click X salt page st) =
        Status ''lockStatus'' ''Password set. You can now Unlock and Save the API key.'' ''ok''
      \<longrightarrow> \<not> password_record_complete st)
   \<and> (snd (setPassword_click X salt page st) \<noteq> st \<longrightarrow> \<not> password_record_complete st)
   \<and> (\<not> password_record_complete st \<and> trim (adminPassword page) \<noteq> []
        \<and> derive_raw X (trim (adminPassword page)) salt 200000 = Some raw \<longrightarrow>
      setPassword_click X salt page st =
        (Status ''lockStatus'' ''Password set. You can now Unlock and Save the API key.'' ''ok'',
         st\<lparr>ALMA_PW_SALT := Some (b64u salt), ALMA_KDF_ITERS := Some 200000,
            ALMA_KEK_B64 := Some (u8ToB64u raw)\<rparr>))"
  by (auto simp: setPassword_click_def password_record_complete_def Let_def split: option.splits)

theorem setPassword_already_set_witness:
  "password_record_complete stored_password
   \<and> setPassword_click test_platform sample_salt (page_of ''Other9'' [] [] True) stored_password =
        (Status ''lockStatus'' ''Password already set. Use Unlock to edit.'' ''err'', stored_password)
   \<and> fst (setPassword_click test_platform sample_salt (page_of ''Sesame1'' [] [] True) empty_storage) =
        Status ''lockStatus'' ''Password set. You can now Unlock and Save the API key.'' ''ok''
   \<and> snd (setPassword_click test_platform sample_salt (page_of ''Sesame1'' [] [] True) empty_storage)
        \<noteq> empty_storage
   \<and> \<not> password_record_complete empty_storage
   \<and> \<not> password_record_complete zero_iters_storage
   \<and> trim (adminPassword (page_of ''Sesame1'' [] [] True)) \<noteq> []
   \<and> derive_raw test_platform (trim (adminPassword (page_of ''Sesame1'' [] [] True))) sample_salt 200000 =
        Some sample_kek
   \<and> setPassword_click test_platform sample_salt (page_of ''Sesame1'' [] [] True) zero_iters_storage =
        (Status ''lockStatus'' ''Password set. You can now Unlock and Save the API key.'' ''ok'',
         zero_iters_storage\<lparr>ALMA_PW_SALT := Some (b64u sample_salt), ALMA_KDF_ITERS := Some 200000,
            ALMA_KEK_B64 := Some (u8ToB64u sample_kek)\<rparr>)"
proof -
  let ?X = test_platform
  have c: "password_record_complete stored_password" by code_simp
  have t: "trim (adminPassword (page_of ''Other9'' [] [] True)) \<noteq> []" by code_simp
  have s: "snd (setPassword_click ?X sample_salt (page_of ''Sesame1'' [] [] True) empty_storage)
        \<noteq> empty_storage" by code_simp
  have o: "fst (setPassword_click ?X sample_salt (page_of ''Sesame1'' [] [] True) empty_storage) =
        Status ''lockStatus'' ''Password set. You can now Unlock and Save the API key.'' ''ok''"
    by (simp add: test_setup)
  have z: "\<not> password_record_complete zero_iters_storage" by code_simp
  have p: "trim (adminPassword (page_of ''Sesame1'' [] [] True)) \<noteq> []" by code_simp
  have d: "derive_raw ?X (trim (adminPassword (page_of ''Sesame1'' [] [] True))) sample_salt 200000 =
        Some sample_kek" by code_simp
  from setPassword_already_set [of stored_password ?X sample_salt "page_of ''Other9'' [] [] True"] c t
  have 1: "setPassword_click ?X sample_salt (page_of ''Other9'' [] [] True) stored_password =
        (Status ''lockStatus'' ''Password already set. Use Unlock to edit.'' ''err'', stored_password)"
    by simp
  from setPassword_already_set [of empty_storage ?X sample_salt "page_of ''Sesame1'' [] [] True"] o
  have 2: "\<not> password_record_complete empty_storage" by blast
  from setPassword_already_set [of zero_iters_storage ?X sample_salt "page_of ''Sesame1'' [] [] True"
      sample_kek] z p d
  have 3: "setPassword_click ?X sample_salt (page_of ''Sesame1'' [] [] True) zero_iters_storage =
        (Status ''lockStatus'' ''Password set. You can now Unlock and Save the API key.'' ''ok'',
         zero_iters_storage\<lparr>ALMA_PW_SALT := Some (b64u sample_salt), ALMA_KDF_ITERS := Some 200000,
            ALMA_KEK_B64 := Some (u8ToB64u sample_kek)\<rparr>)"
    by blast
  from c 1 o s 2 z p d 3 show ?thesis by (intro conjI)
qed

text \<open>
  C6 as stated fails twice. With a complete record stored and a password field of two
  spaces the answer is \<^verbatim>\<open>Enter a password to set.\<close>, not the already-set error. And a
  record whose three fields are all stored, the iteration count being 0, is not kept: the
  handler reports success and writes a new iteration count and a new KEK over it.
\<close>

theorem setPassword_record_counterexample:
  "password_record_complete stored_password
   \<and> setPassword_click test_platform sample_salt (page_of ''  '' [] [] True) stored_password =
        (Status ''lockStatus'' ''Enter a password to set.'' ''err'', stored_password)
   \<and> ALMA_PW_SALT zero_iters_storage = Some ''AQIDBAUGBwgJCgsMDQ4PEA''
   \<and> ALMA_KDF_ITERS zero_iters_storage = Some 0
   \<and> ALMA_KEK_B64 zero_iters_storage = Some ''U2VzYW1lMQECAwQFBgcICQoLDA0ODxA''
   \<and> fst (setPassword_click test_platform sample_salt (page_of ''Other9'' [] [] True) zero_iters_storage) =
        Status ''lockStatus'' ''Password set. You can now Unlock and Save the API key.'' ''ok''
   \<and> ALMA_KDF_ITERS (snd (setPassword_click test_platform sample_salt (page_of ''Other9'' [] [] True)
        zero_iters_storage)) = Some 200000
   \<and> ALMA_KEK_B64 (snd (setPassword_click test_platform sample_salt (page_of ''Other9'' [] [] True)
        zero_iters_storage)) \<noteq> ALMA_KEK_B64 zero_iters_storage"
  by code_simp

text \<open>
  C5. With the settings card enabled, two clear clicks in a row both report
  \<^verbatim>\<open>Cleared API key.\<close>, and the salt, the iteration count, the KEK, the ciphertext and the
  nonce are gone after the first. The handler's list of keys to remove has no
  \<^verbatim>\<open>ALMA_API_KEY_LEN\<close>: the stored plaintext length is after both clicks what it was
  before, which is where the code leaves the claim.
\<close>

theorem clear_twice:
  assumes "\<not> settingsCard_disabled page"
  shows "fst (clear_click page st) = Status ''status'' ''Cleared API key.'' ''ok''
    \<and> clear_click page (snd (clear_click page st)) =
        (Status ''status'' ''Cleared API key.'' ''ok'', snd (clear_click page st))
    \<and> snd (clear_click page st) =
        st\<lparr>ALMA_PW_SALT := None, ALMA_KDF_ITERS := None, ALMA_KEK_B64 := None,
           ALMA_API_KEY_C := None, ALMA_API_KEY_IV := None, ALMA_API_KEY := None\<rparr>
    \<and> ALMA_API_KEY_LEN (snd (clear_click page (snd (clear_click page st)))) = ALMA_API_KEY_LEN st"
  using assms by (simp add: clear_click_def)

theorem clear_twice_witness:
  "\<not> settingsCard_disabled (page_of [] [] ''NA'' False)
   \<and> fst (clear_click (page_of [] [] ''NA'' False) stored_credential) =
        Status ''status'' ''Cleared API key.'' ''ok''
   \<and> fst (clear_click (page_of [] [] ''NA'' False)
        (snd (clear_click (page_of [] [] ''NA'' False) stored_credential))) =
        Status ''status'' ''Cleared API key.'' ''ok''
   \<and> ALMA_API_KEY_C (snd (clear_click (page_of [] [] ''NA'' False) stored_credential)) = None
   \<and> ALMA_API_KEY_LEN (snd (clear_click (page_of [] [] ''NA'' False)
        (snd (clear_click (page_of [] [] ''NA'' False) stored_credential)))) = Some 13"
proof -
  have d: "\<not> settingsCard_disabled (page_of [] [] ''NA'' False)" by (simp add: page_of_def)
  have l: "ALMA_API_KEY_LEN stored_credential = Some 13" by code_simp
  let ?p = "page_of [] [] ''NA'' False"
  from clear_twice [OF d, of stored_credential]
  have a: "fst (clear_click ?p stored_credential) = Status ''status'' ''Cleared API key.'' ''ok''"
    and b: "clear_click ?p (snd (clear_click ?p stored_credential)) =
        (Status ''status'' ''Cleared API key.'' ''ok'', snd (clear_click ?p stored_credential))"
    and c: "snd (clear_click ?p stored_credential) =
        stored_credential\<lparr>ALMA_PW_SALT := None, ALMA_KDF_ITERS := None, ALMA_KEK_B64 := None,
           ALMA_API_KEY_C := None, ALMA_API_KEY_IV := None, ALMA_API_KEY := None\<rparr>"
    and e: "ALMA_API_KEY_LEN (snd (clear_click ?p (snd (clear_click ?p stored_credential)))) =
        ALMA_API_KEY_LEN stored_credential"
    by blast+
  have b': "fst (clear_click ?p (snd (clear_click ?p stored_credential))) =
      Status ''status'' ''Cleared API key.'' ''ok''"
    by (simp only: b fst_conv)
  have c': "ALMA_API_KEY_C (snd (clear_click ?p stored_credential)) = None"
    by (simp only: c) simp
  from d a b' c' e l show ?thesis by (simp only:) simp
qed

text \<open>
  C9, as amended. With the settings card enabled and a key field that is empty or white
  space only, the save handler reports \<^verbatim>\<open>Saved region.\<close> and stores the region (\<^verbatim>\<open>NA\<close> for
  an empty region value), whatever the password field and the platform are; every other
  stored field, those of the credential and of the password record among them, is left as
  it was. While the card is disabled, as it is from page load until an unlock succeeds,
  the handler answers \<^verbatim>\<open>Unlock first.\<close> and stores nothing.
\<close>

theorem save_region_only:
  "(\<not> settingsCard_disabled page \<and> trim (apiKey page) = [] \<longrightarrow>
      save_click X iv page st =
        (Status ''status'' ''Saved region.'' ''ok'',
         st\<lparr>ALMA_REGION := Some (if region page = [] then ''NA'' else region page)\<rparr>)
      \<and> ALMA_API_KEY_C (snd (save_click X iv page st)) = ALMA_API_KEY_C st
      \<and> ALMA_API_KEY_IV (snd (save_click X iv page st)) = ALMA_API_KEY_IV st
      \<and> ALMA_API_KEY_LEN (snd (save_click X iv page st)) = ALMA_API_KEY_LEN st
      \<and> ALMA_PW_SALT (snd (save_click X iv page st)) = ALMA_PW_SALT st
      \<and> ALMA_KDF_ITERS (snd (save_click X iv page st)) = ALMA_KDF_ITERS st
      \<and> ALMA_KEK_B64 (snd (save_click X iv page st)) = ALMA_KEK_B64 st)
   \<and> (settingsCard_disabled page \<longrightarrow>
      save_click X iv page st = (Status ''status'' ''Unlock first.'' ''err'', st))"
  by (simp add: save_click_def Let_def)

theorem save_region_only_witness:
  "\<not> settingsCard_disabled (page_of [] ''  '' ''EU'' False)
   \<and> trim (apiKey (page_of [] ''  '' ''EU'' False)) = []
   \<and> save_click test_platform sample_iv (page_of [] ''  '' ''EU'' False) stored_credential =
       (Status ''status'' ''Saved region.'' ''ok'', stored_credential\<lparr>ALMA_REGION := Some ''EU''\<rparr>)
   \<and> ALMA_API_KEY_C (snd (save_click test_platform sample_iv (page_of [] ''  '' ''EU'' False) stored_credential))
       = ALMA_API_KEY_C stored_credential
   \<and> settingsCard_disabled (page_of [] ''  '' ''EU'' True)
   \<and> save_click test_platform sample_iv (page_of [] ''  '' ''EU'' True) stored_credential =
       (Status ''status'' ''Unlock first.'' ''err'', stored_credential)"
proof -
  let ?p = "page_of [] ''  '' ''EU'' False" and ?q = "page_of [] ''  '' ''EU'' True"
  have d: "\<not> settingsCard_disabled ?p" by (simp add: page_of_def)
  have t: "trim (apiKey ?p) = []" by code_simp
  have r: "region ?p = ''EU''" by (simp add: page_of_def)
  have e: "settingsCard_disabled ?q" by (simp add: page_of_def)
  from save_region_only [of ?p test_platform sample_iv stored_credential] d t
  have 1: "save_click test_platform sample_iv ?p stored_credential =
        (Status ''status'' ''Saved region.'' ''ok'',
         stored_credential\<lparr>ALMA_REGION := Some (if region ?p = [] then ''NA'' else region ?p)\<rparr>)"
    and 2: "ALMA_API_KEY_C (snd (save_click test_platform sample_iv ?p stored_credential)) =
        ALMA_API_KEY_C stored_credential"
    by blast+
  from 1 have rr: "save_click test_platform sample_iv ?p stored_credential =
       (Status ''status'' ''Saved region.'' ''ok'', stored_credential\<lparr>ALMA_REGION := Some ''EU''\<rparr>)"
    by (simp add: r)
  from save_region_only [of ?q test_platform sample_iv stored_credential] e
  have 3: "save_click test_platform sample_iv ?q stored_credential =
       (Status ''status'' ''Unlock first.'' ''err'', stored_credential)"
    by blast
  from d t rr 2 e 3 show ?thesis by (intro conjI)
qed

text \<open>
  C9 as stated fails: on a page whose settings card is still disabled, a save with an
  empty key field and the region \<^verbatim>\<open>EU\<close> answers \<^verbatim>\<open>Unlock first.\<close> and the stored region is
  what it was.
\<close>

theorem save_region_locked_counterexample:
  "settingsCard_disabled (page_of [] [] ''EU'' True)
   \<and> trim (apiKey (page_of [] [] ''EU'' True)) = []
   \<and> save_click test_platform sample_iv (page_of [] [] ''EU'' True) stored_credential =
       (Status ''status'' ''Unlock first.'' ''err'', stored_credential)
   \<and> ALMA_REGION (snd (save_click test_platform sample_iv (page_of [] [] ''EU'' True) stored_credential))
       = Some ''NA''"
  by code_simp

text \<open>
  C10. After a save that reports an encrypted save, the stored plaintext length is the
  length of the trimmed key field, the string that was encrypted; and the mask that
  \<^verbatim>\<open>paintMaskedIfEncrypted\<close> paints from the storage alone has that many bullets whenever
  it paints one.
\<close>

theorem save_length:
  assumes "save_click X iv page st = (Status ''status'' ''Saved settings (encrypted).'' ''ok'', st')"
  shows "ALMA_API_KEY_LEN st' = Some (length (trim (apiKey page)))
    \<and> masked_length st' =
        (if truthy_str (ALMA_API_KEY_C st') \<and> truthy_str (ALMA_API_KEY_IV st')
         then length (trim (apiKey page)) else 0)"
  using assms
  by (auto simp: save_click_def Let_def masked_length_def max_def split: if_splits option.splits)

theorem save_length_witness:
  "save_click test_platform sample_iv (page_of ''Sesame1'' '' sk-test-12345 '' ''NA'' False) stored_password =
     (Status ''status'' ''Saved settings (encrypted).'' ''ok'', stored_credential)
   \<and> ALMA_API_KEY_LEN stored_credential = Some (length ''sk-test-12345'')
   \<and> masked_length stored_credential = 13"
proof -
  have p: "apiKey (page_of ''Sesame1'' '' sk-test-12345 '' ''NA'' False) = '' sk-test-12345 ''"
    by (simp add: page_of_def)
  have c: "truthy_str (ALMA_API_KEY_C stored_credential) \<and> truthy_str (ALMA_API_KEY_IV stored_credential)"
    by code_simp
  show ?thesis
    using save_length [OF test_save_spaces] test_save_spaces c
    by (simp add: p test_trim)
qed

end
